theory Spec2Isabelle
  imports Main
begin

section \<open>Shared data: the pool configuration item\<close>

text \<open>
  The pool configuration is one item of the table, with the attributes
  \<^verbatim>\<open>servers\<close>, \<^verbatim>\<open>weights\<close> and \<^verbatim>\<open>current_instance_count\<close>.
  Every reader fetches an attribute with \<^verbatim>\<open>config.get(key, default)\<close>, so an
  attribute may be absent: it is an option here.  Numbers are Python integers
  (the \<^verbatim>\<open>Decimal\<close> values of the table are whole numbers, read with \<^verbatim>\<open>int\<close>).
\<close>

record config_item =
  servers :: "string list option"
  weights :: "int list option"
  current_instance_count :: "int list option"

section \<open>router-lambda.py: the weighted selector\<close>

text \<open>
  \<^verbatim>\<open>LoadBalancerError(message, status_code, details)\<close>.  Of the details only the
  key \<^verbatim>\<open>fallback_count\<close> is ever read back, so the error carries the message, the
  status code and \<^verbatim>\<open>details.get('fallback_count')\<close>.
\<close>

datatype lb_error = LoadBalancerError (message: string) (status_code: nat) (fallback_count: "int option")

text \<open>
  What the table answers to the atomic \<^verbatim>\<open>update_item\<close> of the counter: the old
  attributes (\<^verbatim>\<open>UPDATED_OLD\<close>, with \<^verbatim>\<open>request_count\<close> absent on first use), a
  \<^verbatim>\<open>ClientError\<close> with its error code, or any other exception.
\<close>

datatype counter_response =
  Updated "int option"
| ClientError string
| OtherException

text \<open>The routing decision returned by \<^verbatim>\<open>get_next_server\<close>: a dict with three keys,
  and a fourth key \<^verbatim>\<open>warning\<close> on the trailing fallback path only.\<close>

record routing_decision =
  server :: string
  request_id :: string
  request_count :: int
  warning :: "string option"

text \<open>
  \<^verbatim>\<open>get_server_config\<close>.  The argument is the item found under the configuration
  key (\<open>None\<close>: no item, the default configuration is stored and returned).
  The \<^verbatim>\<open>raise LoadBalancerError("Invalid server configuration in database")\<close>
  stands inside the \<^verbatim>\<open>try\<close> whose last handler is \<^verbatim>\<open>except Exception\<close>, so what
  leaves the function is the handler's error, "Failed to retrieve server
  configuration".  The table itself is taken to answer (its own failures are
  the store collaborator's, outside this model).
\<close>

definition get_server_config :: "config_item option \<Rightarrow> lb_error + (string list \<times> int list)" where
  "get_server_config item =
     (case item of
        Some config \<Rightarrow>
          (let ss = (case servers config of Some l \<Rightarrow> l | None \<Rightarrow> []);
               ws = (case weights config of Some l \<Rightarrow> l | None \<Rightarrow> [])
           in if ss = [] \<or> ws = [] \<or> length ss \<noteq> length ws
              then Inl (LoadBalancerError ''Failed to retrieve server configuration'' 500 None)
              else Inr (ss, ws))
      | None \<Rightarrow> Inr ([''server1'', ''server2'', ''server3''], [5, 3, 2]))"

text \<open>
  \<^verbatim>\<open>get_and_increment_counter\<close>.  \<open>now_ms\<close> is \<^verbatim>\<open>int(time.time() * 1000)\<close>, the
  wall clock in milliseconds.  Both handlers raise an error whose details hold
  \<^verbatim>\<open>fallback_count = int(time.time() * 1000) % 1000\<close>.
\<close>

definition get_and_increment_counter :: "counter_response \<Rightarrow> int \<Rightarrow> lb_error + int" where
  "get_and_increment_counter response now_ms =
     (case response of
        Updated (Some n) \<Rightarrow> Inr n
      | Updated None \<Rightarrow> Inr 0
      | ClientError error_code \<Rightarrow>
          Inl (LoadBalancerError (''Counter update failed: '' @ error_code) 500 (Some (now_ms mod 1000)))
      | OtherException \<Rightarrow>
          Inl (LoadBalancerError ''Failed to update request counter'' 500 (Some (now_ms mod 1000))))"

text \<open>
  The loop \<^verbatim>\<open>for i, weight in enumerate(weights)\<close> of \<^verbatim>\<open>get_next_server\<close>:
  the index at which it returns, or \<open>None\<close> when it runs to its end.
\<close>

fun weight_walk :: "int list \<Rightarrow> int \<Rightarrow> int \<Rightarrow> nat \<Rightarrow> nat option" where
  "weight_walk [] position cumulative i = None"
| "weight_walk (weight # rest) position cumulative i =
     (if position \<le> cumulative + weight then Some i
      else weight_walk rest position (cumulative + weight) (Suc i))"

text \<open>
  \<^verbatim>\<open>get_next_server\<close>.  \<open>uuid\<close> is the fresh \<^verbatim>\<open>str(uuid.uuid4())\<close>.  Python's
  \<^verbatim>\<open>%\<close> with a positive right operand is \<open>mod\<close> on \<open>int\<close>.  A read
  \<^verbatim>\<open>servers[i]\<close> out of range raises \<^verbatim>\<open>IndexError\<close>, which the last handler turns
  into "Failed to determine next server".
\<close>

definition get_next_server ::
  "config_item option \<Rightarrow> counter_response \<Rightarrow> int \<Rightarrow> string \<Rightarrow> lb_error + routing_decision" where
  "get_next_server item response now_ms uuid =
     (case get_server_config item of
        Inl e \<Rightarrow> Inl e
      | Inr (ss, ws) \<Rightarrow>
          (case (case get_and_increment_counter response now_ms of
                   Inr n \<Rightarrow> Inr n
                 | Inl e \<Rightarrow> (case fallback_count e of Some f \<Rightarrow> Inr f | None \<Rightarrow> Inl e)) of
             Inl e \<Rightarrow> Inl e
           | Inr count \<Rightarrow>
               (let total_weight = sum_list ws in
                if total_weight \<le> 0
                then Inl (LoadBalancerError ''Invalid server weights configuration'' 500 None)
                else
                  (let position = (count mod total_weight) + 1 in
                   case weight_walk ws position 0 0 of
                     Some i \<Rightarrow>
                       (if i < length ss
                        then Inr \<lparr>server = ss ! i, request_id = uuid,
                                  request_count = count + 1, warning = None\<rparr>
                        else Inl (LoadBalancerError ''Failed to determine next server'' 500 None))
                   | None \<Rightarrow>
                       (case ss of
                          [] \<Rightarrow> Inl (LoadBalancerError ''Failed to determine next server'' 500 None)
                        | s0 # _ \<Rightarrow>
                            Inr \<lparr>server = s0, request_id = uuid, request_count = count + 1,
                                 warning = Some ''Used fallback server selection''\<rparr>)))))"

section \<open>Python values and arithmetic\<close>

text \<open>
  A scaling state is the dict read from the table: attribute names to values.  A
  value is a whole number or a string.  A number of the table is a \<^verbatim>\<open>Decimal\<close>, a
  number of a request body is an \<^verbatim>\<open>int\<close>; fractions are outside this model.
  Reading a missing key raises \<^verbatim>\<open>KeyError\<close>; comparing a string with a number
  (\<^verbatim>\<open><\<close>, \<^verbatim>\<open>>=\<close>) and adding a string to a number (\<^verbatim>\<open>+ '-'\<close>) raise
  \<^verbatim>\<open>TypeError\<close>; a number passed where boto3 needs a string is refused before
  anything is sent, which is recorded as \<^verbatim>\<open>TypeError\<close> too.
\<close>

datatype val = N int | S string

type_synonym state = "string \<rightharpoonup> val"

datatype py_error =
  KeyError string
| TypeError
| ValueError
| IndexError
| InvalidOperation
| Overflow
| OverflowError
| ZeroDivisionError
| ConfigurationError string

text \<open>
  Python's own readers of numbers in strings are not part of the repository; they
  are parameters of the model: \<open>decimal_of_str s\<close> is the whole number
  \<^verbatim>\<open>Decimal(s)\<close> returns (\<open>None\<close>: it raises \<^verbatim>\<open>InvalidOperation\<close>), and
  \<open>float_of_str s\<close> says whether \<^verbatim>\<open>float(s)\<close> returns.  A string that
  \<^verbatim>\<open>Decimal\<close> reads as a fraction, an infinity or a NaN is outside this model, as
  fractions are.
\<close>

record python =
  decimal_of_str :: "string \<Rightarrow> int option"
  float_of_str :: "string \<Rightarrow> bool"

text \<open>The number of digits of \<open>n\<close> in base \<open>b\<close>.\<close>

function ndigits :: "nat \<Rightarrow> nat \<Rightarrow> nat" where
  "ndigits b n = (if n < b \<or> b < 2 then 1 else Suc (ndigits b (n div b)))"
  by pat_completeness auto
termination
  by (relation "measure snd") auto

declare ndigits.simps [simp del]

text \<open>The quotient \<open>n / d\<close> rounded to the nearest whole number, a tie to the even
  one: the rounding of both \<^verbatim>\<open>Decimal\<close> (\<^verbatim>\<open>ROUND_HALF_EVEN\<close>) and \<^verbatim>\<open>float\<close>.\<close>

definition round_half_even :: "nat \<Rightarrow> nat \<Rightarrow> nat" where
  "round_half_even n d =
     (let q = n div d; r = n mod d
      in if 2 * r > d \<or> (2 * r = d \<and> odd q) then q + 1 else q)"

text \<open>
  The result of a \<^verbatim>\<open>Decimal\<close> operation whose exact value is the whole number
  \<open>x\<close>, in the default context: the value is rounded to 28 significant digits, and
  \<^verbatim>\<open>Overflow\<close> is raised when the rounded value needs an exponent beyond
  \<^verbatim>\<open>Emax = 999999\<close>.
\<close>

definition decimal_round :: "int \<Rightarrow> int" where
  "decimal_round x =
     (let n = nat \<bar>x\<bar>; d = ndigits 10 n
      in if d \<le> 28 then x
         else sgn x * int (round_half_even n (10 ^ (d - 28)) * 10 ^ (d - 28)))"

definition decimal_limit :: int where
  "decimal_limit = 10 ^ 1000000"

definition decimal_result :: "int \<Rightarrow> py_error + int" where
  "decimal_result x =
     (let r = decimal_round x in if \<bar>r\<bar> < decimal_limit then Inr r else Inl Overflow)"

text \<open>
  \<^verbatim>\<open>int(a / b)\<close> on two \<^verbatim>\<open>int\<close>s: the true quotient, correctly rounded to a
  \<^verbatim>\<open>float\<close> (53 significant bits, \<^verbatim>\<open>OverflowError\<close> from \<open>2^1024\<close> on), then
  truncated towards zero.  Below 1 the float is 1.0 or less than 1; from 1 on, \<open>e\<close>
  is the exponent of the quotient and the float is a multiple of \<open>2^(e - 52)\<close>.
\<close>

definition int_truediv :: "int \<Rightarrow> int \<Rightarrow> py_error + int" where
  "int_truediv a b =
     (if b = 0 then Inl ZeroDivisionError
      else
        (let n = nat \<bar>a\<bar>; d = nat \<bar>b\<bar>
         in if n < d then
              Inr (sgn a * sgn b * (if d * (2 ^ 54 - 1) \<le> n * 2 ^ 54 then 1 else 0))
            else
              (let e = ndigits 2 (n div d) - 1
               in if e \<le> 52 then
                    Inr (sgn a * sgn b *
                         int (round_half_even (n * 2 ^ (52 - e)) d div 2 ^ (52 - e)))
                  else
                    (let m = round_half_even n (d * 2 ^ (e - 52)) * 2 ^ (e - 52)
                     in if m < 2 ^ 1024 then Inr (sgn a * sgn b * int m)
                        else Inl OverflowError))))"

section \<open>asg-activity-lambda.py: the capacity scaling state machine\<close>

text \<open>One call of \<^verbatim>\<open>update_endpoint_weights_and_capacities\<close>: the control-plane
  request "scale this variant of this endpoint to this many instances".  The control
  plane and the table are taken to answer; their failures are outside this model.\<close>

record request =
  EndpointName :: string
  VariantName :: string
  DesiredInstanceCount :: int

definition get_item :: "state \<Rightarrow> string \<Rightarrow> py_error + val" where
  "get_item st k = (case st k of None \<Rightarrow> Inl (KeyError k) | Some v \<Rightarrow> Inr v)"

text \<open>A value read to be compared with a number, and a value read as a string.\<close>

definition get_num :: "state \<Rightarrow> string \<Rightarrow> py_error + int" where
  "get_num st k =
     (case st k of None \<Rightarrow> Inl (KeyError k) | Some (N n) \<Rightarrow> Inr n | Some (S s) \<Rightarrow> Inl TypeError)"

definition get_str :: "state \<Rightarrow> string \<Rightarrow> py_error + string" where
  "get_str st k =
     (case st k of None \<Rightarrow> Inl (KeyError k) | Some (S s) \<Rightarrow> Inr s | Some (N n) \<Rightarrow> Inl TypeError)"

text \<open>\<^verbatim>\<open>Decimal(v)\<close>, and \<^verbatim>\<open>Decimal(self.currentState[k])\<close>.\<close>

definition to_decimal :: "python \<Rightarrow> val \<Rightarrow> py_error + int" where
  "to_decimal py v =
     (case v of
        N n \<Rightarrow> Inr n
      | S s \<Rightarrow> (case decimal_of_str py s of Some n \<Rightarrow> Inr n | None \<Rightarrow> Inl InvalidOperation))"

definition get_decimal :: "python \<Rightarrow> state \<Rightarrow> string \<Rightarrow> py_error + int" where
  "get_decimal py st k = (case st k of None \<Rightarrow> Inl (KeyError k) | Some v \<Rightarrow> to_decimal py v)"

text \<open>\<^verbatim>\<open>xs.index(x)\<close>: the first position of \<open>x\<close>, \<^verbatim>\<open>ValueError\<close> (here \<open>None\<close>) when
  there is none.\<close>

fun list_index :: "'a list \<Rightarrow> 'a \<Rightarrow> nat option" where
  "list_index [] x = None"
| "list_index (y # ys) x = (if y = x then Some 0 else map_option Suc (list_index ys x))"

text \<open>\<^verbatim>\<open>ASGClass.get_server_config\<close> of asg-activity-lambda.py: servers,
  currentInstanceCount and weights of the stored item, absent lists filled with
  zeros; \<^verbatim>\<open>ConfigurationError\<close> when there is no item.\<close>

definition asg_get_server_config ::
  "config_item option \<Rightarrow> py_error + (string list \<times> int list \<times> int list)" where
  "asg_get_server_config item =
     (case item of
        Some config \<Rightarrow>
          (let ss = (case servers config of Some l \<Rightarrow> l | None \<Rightarrow> []);
               ws = (case weights config of Some l \<Rightarrow> l | None \<Rightarrow> replicate (length ss) 0);
               cs = (case current_instance_count config of Some l \<Rightarrow> l
                     | None \<Rightarrow> replicate (length ss) 0)
           in Inr (ss, cs, ws))
      | None \<Rightarrow> Inl (ConfigurationError ''Server configuration not found in database''))"

text \<open>\<^verbatim>\<open>update_endpoint(endpoint_name, variant_name, desired_instance_count)\<close>: the
  request it sends.\<close>

definition update_endpoint :: "string \<Rightarrow> string \<Rightarrow> int \<Rightarrow> request" where
  "update_endpoint endpoint_name variant_name desired_instance_count =
     \<lparr>EndpointName = endpoint_name, VariantName = variant_name,
      DesiredInstanceCount = desired_instance_count\<rparr>"

text \<open>The first two arguments of every \<^verbatim>\<open>update_endpoint\<close> call of
  \<^verbatim>\<open>update_scaling\<close>: \<^verbatim>\<open>currentState["resourceName"] + '-' + server\<close> and
  \<^verbatim>\<open>currentState["variantName"]\<close>.\<close>

definition endpoint_args :: "state \<Rightarrow> string \<Rightarrow> py_error + (string \<times> string)" where
  "endpoint_args st srv =
     (case get_str st ''resourceName'' of
        Inl e \<Rightarrow> Inl e
      | Inr rn \<Rightarrow>
          (case get_str st ''variantName'' of
             Inl e \<Rightarrow> Inl e
           | Inr vn \<Rightarrow> Inr (rn @ ''-'' @ srv, vn)))"

text \<open>
  The loops of \<^verbatim>\<open>update_scaling\<close> return the requests sent so far and the exception
  that ended them, if any.  \<open>delta\<close> is a \<^verbatim>\<open>Decimal\<close>, so \<^verbatim>\<open>-delta\<close>,
  \<^verbatim>\<open>currentInstanceCount[i] + delta\<close> and \<^verbatim>\<open>delta += currentInstanceCount[i]\<close> are
  \<^verbatim>\<open>Decimal\<close> operations; comparisons are exact.  Scale up, counts not all zero
  (\<^verbatim>\<open>for i, server in enumerate(servers)\<close>, lines 134 to 136):
\<close>

fun scale_up_loop :: "state \<Rightarrow> string list \<Rightarrow> int list \<Rightarrow> nat \<Rightarrow> int \<Rightarrow> request list \<times> py_error option" where
  "scale_up_loop st [] cs i delta = ([], None)"
| "scale_up_loop st (srv # rest) cs i delta =
     (case endpoint_args st srv of
        Inl e \<Rightarrow> ([], Some e)
      | Inr (en, vn) \<Rightarrow>
          (if i < length cs
           then (case decimal_result (cs ! i + delta) of
                   Inl e \<Rightarrow> ([], Some e)
                 | Inr n \<Rightarrow>
                     (case scale_up_loop st rest cs (Suc i) delta of
                        (rs, e) \<Rightarrow> (update_endpoint en vn n # rs, e)))
           else ([], Some IndexError)))"

text \<open>Scale down (lines 138 to 144): \<^verbatim>\<open>break\<close> after the partial reduction, a request
  for 0 and \<^verbatim>\<open>delta += currentInstanceCount[i]\<close> for a drained backend, nothing for
  the others.\<close>

fun scale_down_loop :: "state \<Rightarrow> string list \<Rightarrow> int list \<Rightarrow> nat \<Rightarrow> int \<Rightarrow> request list \<times> py_error option" where
  "scale_down_loop st [] cs i delta = ([], None)"
| "scale_down_loop st (srv # rest) cs i delta =
     (if length cs \<le> i then ([], Some IndexError)
      else
        (case decimal_result (- delta) of
           Inl e \<Rightarrow> ([], Some e)
         | Inr minus_delta \<Rightarrow>
             (if cs ! i > minus_delta then
                (case endpoint_args st srv of
                   Inl e \<Rightarrow> ([], Some e)
                 | Inr (en, vn) \<Rightarrow>
                     (case decimal_result (cs ! i + delta) of
                        Inl e \<Rightarrow> ([], Some e)
                      | Inr n \<Rightarrow> ([update_endpoint en vn n], None)))
              else if cs ! i > 0 then
                (case endpoint_args st srv of
                   Inl e \<Rightarrow> ([], Some e)
                 | Inr (en, vn) \<Rightarrow>
                     (case decimal_result (delta + cs ! i) of
                        Inl e \<Rightarrow> ([update_endpoint en vn 0], Some e)
                      | Inr delta1 \<Rightarrow>
                          (case scale_down_loop st rest cs (Suc i) delta1 of
                             (rs, e) \<Rightarrow> (update_endpoint en vn 0 # rs, e))))
              else scale_down_loop st rest cs (Suc i) delta)))"

text \<open>\<^verbatim>\<open>update_scaling\<close>.
  \<^verbatim>\<open>delta = Decimal(desiredCapacity) - Decimal(actualCapacity)\<close> is a \<^verbatim>\<open>Decimal\<close>
  subtraction; \<^verbatim>\<open>int(delta)\<close> is exact.\<close>

definition update_scaling ::
  "python \<Rightarrow> state \<Rightarrow> config_item option \<Rightarrow> request list \<times> py_error option" where
  "update_scaling py st item =
     (case asg_get_server_config item of
        Inl e \<Rightarrow> ([], Some e)
      | Inr (ss, cs, ws) \<Rightarrow>
          (case get_decimal py st ''desiredCapacity'' of
             Inl e \<Rightarrow> ([], Some e)
           | Inr desired \<Rightarrow>
               (case get_decimal py st ''actualCapacity'' of
                  Inl e \<Rightarrow> ([], Some e)
                | Inr actual \<Rightarrow>
                    (case decimal_result (desired - actual) of
                       Inl e \<Rightarrow> ([], Some e)
                     | Inr delta \<Rightarrow>
                         (if delta > 0 then
                            (if sum_list cs = 0 then
                               (case get_str st ''resourceName'' of
                                  Inl e \<Rightarrow> ([], Some e)
                                | Inr rn \<Rightarrow>
                                    (case list_index ws 1 of
                                       None \<Rightarrow> ([], Some ValueError)
                                     | Some k \<Rightarrow>
                                         (if k < length ss then
                                            (case get_str st ''variantName'' of
                                               Inl e \<Rightarrow> ([], Some e)
                                             | Inr vn \<Rightarrow>
                                                 ([update_endpoint (rn @ ''-'' @ ss ! k) vn delta],
                                                  None))
                                          else ([], Some IndexError))))
                             else scale_up_loop st ss cs 0 delta)
                          else if delta < 0 then scale_down_loop st ss cs 0 delta
                          else ([], None))))))"

text \<open>
  \<^verbatim>\<open>patch_state\<close>, in its three steps.  The request body is the parsed JSON object,
  as the list of its members (the items of a dict: no key occurs twice).  Each step
  returns the new state, the requests sent and the exception raised, if any.
\<close>

definition patch_actual :: "python \<Rightarrow> state \<Rightarrow> (string \<times> val) list \<Rightarrow> py_error + state" where
  "patch_actual py st bodyData =
     (case map_of bodyData ''actualCapacity'' of
        None \<Rightarrow> Inr st
      | Some v \<Rightarrow>
          (case to_decimal py v of
             Inl e \<Rightarrow> Inl e
           | Inr n \<Rightarrow> Inr (st(''actualCapacity'' \<mapsto> N n))))"

definition patch_desired ::
  "python \<Rightarrow> state \<Rightarrow> (string \<times> val) list \<Rightarrow> config_item option \<Rightarrow>
   state \<times> request list \<times> py_error option" where
  "patch_desired py st bodyData item =
     (case map_of bodyData ''desiredCapacity'' of
        None \<Rightarrow> (st, [], None)
      | Some v \<Rightarrow>
          (case get_item st ''scalingStatus'' of
             Inl e \<Rightarrow> (st, [], Some e)
           | Inr status \<Rightarrow>
               (if status = S ''InProgress'' \<or> status = S ''Pending'' then (st, [], None)
                else
                  (case to_decimal py v of
                     Inl e \<Rightarrow> (st, [], Some e)
                   | Inr d \<Rightarrow>
                       (if d > 0 then
                          (case update_scaling py
                                  (st(''desiredCapacity'' \<mapsto> N d, ''scalingStatus'' \<mapsto> S ''Pending''))
                                  item of
                             (rs, e) \<Rightarrow>
                               (st(''desiredCapacity'' \<mapsto> N d, ''scalingStatus'' \<mapsto> S ''Pending''),
                                rs, e))
                        else (st(''desiredCapacity'' \<mapsto> N d), [], None))))))"

definition patch_status :: "state \<Rightarrow> (string \<times> val) list \<Rightarrow> state" where
  "patch_status st bodyData =
     (case map_of bodyData ''scalingStatus'' of
        None \<Rightarrow> st
      | Some v \<Rightarrow> st(''scalingStatus'' \<mapsto> v))"

definition patch_state ::
  "python \<Rightarrow> state \<Rightarrow> (string \<times> val) list \<Rightarrow> config_item option \<Rightarrow>
   state \<times> request list \<times> py_error option" where
  "patch_state py st bodyData item =
     (case patch_actual py st bodyData of
        Inl e \<Rightarrow> (st, [], Some e)
      | Inr st1 \<Rightarrow>
          (case patch_desired py st1 bodyData item of
             (st2, rs, Some e) \<Rightarrow> (st2, rs, Some e)
           | (st2, rs, None) \<Rightarrow> (patch_status st2 bodyData, rs, None)))"

text \<open>
  The poll branch of \<^verbatim>\<open>lambda_handler\<close> (lines 218 to 227), in its two steps:
  restarting a finished activity whose capacities differ (lines 219 to 221), and
  timing out an activity that has not been written for 25 minutes (lines 222 to
  227).  \<open>now_ms\<close> is \<^verbatim>\<open>int(Decimal(time.time()) * 1000)\<close>.  The reason is stored
  under the key the source writes, \<^verbatim>\<open>failureResaon\<close>.
\<close>

definition restart_finished ::
  "python \<Rightarrow> state \<Rightarrow> config_item option \<Rightarrow> state \<times> request list \<times> py_error option" where
  "restart_finished py st item =
     (case get_item st ''scalingStatus'' of
        Inl e \<Rightarrow> (st, [], Some e)
      | Inr status \<Rightarrow>
          (if status = S ''Successful'' \<or> status = S ''Failed'' then
             (case get_item st ''desiredCapacity'' of
                Inl e \<Rightarrow> (st, [], Some e)
              | Inr d \<Rightarrow>
                  (case get_item st ''actualCapacity'' of
                     Inl e \<Rightarrow> (st, [], Some e)
                   | Inr a \<Rightarrow>
                       (if d \<noteq> a then
                          (case update_scaling py (st(''scalingStatus'' \<mapsto> S ''Pending'')) item of
                             (rs, e) \<Rightarrow> (st(''scalingStatus'' \<mapsto> S ''Pending''), rs, e))
                        else (st, [], None))))
           else (st, [], None)))"

definition time_out :: "state \<Rightarrow> int \<Rightarrow> py_error + state" where
  "time_out st now_ms =
     (case get_num st ''lastModified'' of
        Inl e \<Rightarrow> Inl e
      | Inr lastModified \<Rightarrow>
          (if lastModified < now_ms - 25 * 60 * 1000 then
             (case get_item st ''scalingStatus'' of
                Inl e \<Rightarrow> Inl e
              | Inr status \<Rightarrow>
                  (if status = S ''Pending'' \<or> status = S ''InProgress'' then
                     (case get_item st ''desiredCapacity'' of
                        Inl e \<Rightarrow> Inl e
                      | Inr d \<Rightarrow>
                          (case get_item st ''actualCapacity'' of
                             Inl e \<Rightarrow> Inl e
                           | Inr a \<Rightarrow>
                               (if d \<noteq> a then
                                  Inr (st(''scalingStatus'' \<mapsto> S ''Failed'',
                                          ''failureResaon'' \<mapsto>
                                            S ''Scaling activity stayed in Pending or InProgress for more than 25 minutes''))
                                else Inr (st(''scalingStatus'' \<mapsto> S ''Successful'')))))
                   else Inr st))
           else Inr st))"

definition reconcile ::
  "python \<Rightarrow> state \<Rightarrow> config_item option \<Rightarrow> int \<Rightarrow> state \<times> request list \<times> py_error option" where
  "reconcile py st item now_ms =
     (case get_num st ''desiredCapacity'' of
        Inl e \<Rightarrow> (st, [], Some e)
      | Inr desired \<Rightarrow>
          (if desired \<ge> 0 then
             (case restart_finished py st item of
                (st1, rs, Some e) \<Rightarrow> (st1, rs, Some e)
              | (st1, rs, None) \<Rightarrow>
                  (case time_out st1 now_ms of
                     Inl e \<Rightarrow> (st1, rs, Some e)
                   | Inr st2 \<Rightarrow> (st2, rs, None)))
           else (st, [], None)))"

text \<open>The request: \<^verbatim>\<open>event.get('httpMethod', 'GET')\<close> and the body, which is absent
  or empty, not JSON, or a JSON object.\<close>

datatype body_input = NoBody | InvalidJson | JsonBody "(string \<times> val) list"

record event =
  httpMethod :: "string option"
  body :: body_input

text \<open>What one invocation does: the status code it answers with (the source writes
  the 200 of a successful answer as the string \<^verbatim>\<open>"200"\<close>), the control-plane
  requests it sent, and the item it put into the table (\<open>None\<close>: nothing written).\<close>

record handler_result =
  statusCode :: nat
  sm_requests :: "request list"
  written :: "state option"

text \<open>
  The end of \<^verbatim>\<open>lambda_handler\<close> (lines 229 to 247).  \<open>previousState\<close> is the copy
  taken after reading.  \<^verbatim>\<open>log_state_changes\<close> reads three keys of both states;
  \<^verbatim>\<open>returningJson\<close> reads seven keys, two of them through \<^verbatim>\<open>float\<close>, which returns
  for every number and for the strings \<^verbatim>\<open>float\<close> can read; \<^verbatim>\<open>write_state\<close> sets
  \<^verbatim>\<open>id\<close> and \<^verbatim>\<open>lastModified\<close> and puts the item; then \<^verbatim>\<open>json.dumps\<close> fails on a
  \<^verbatim>\<open>Decimal\<close> among the five values passed as they are, after the write.  The
  numbers of the state are \<^verbatim>\<open>Decimal\<close>s, but for a number that \<^verbatim>\<open>patch_state\<close> has
  just copied from the request body into \<^verbatim>\<open>scalingStatus\<close>: that one is an
  \<^verbatim>\<open>int\<close>, which \<^verbatim>\<open>json.dumps\<close> accepts (\<open>status_is_int\<close>).
\<close>

definition has_keys :: "state \<Rightarrow> string list \<Rightarrow> bool" where
  "has_keys st ks = list_all (\<lambda>k. st k \<noteq> None) ks"

definition is_str :: "state \<Rightarrow> string \<Rightarrow> bool" where
  "is_str st k = (case st k of Some (S s) \<Rightarrow> True | Some (N n) \<Rightarrow> False | None \<Rightarrow> False)"

definition float_returns :: "python \<Rightarrow> state \<Rightarrow> string \<Rightarrow> bool" where
  "float_returns py st k =
     (case st k of Some (N n) \<Rightarrow> True | Some (S s) \<Rightarrow> float_of_str py s | None \<Rightarrow> False)"

definition respond ::
  "python \<Rightarrow> bool \<Rightarrow> state \<Rightarrow> val \<Rightarrow> state \<Rightarrow> request list \<Rightarrow> int \<Rightarrow> handler_result" where
  "respond py status_is_int previousState dimensionId st rs now_ms =
     (case get_item st ''scalingStatus'' of
        Inl e \<Rightarrow> \<lparr>statusCode = 500, sm_requests = rs, written = None\<rparr>
      | Inr status \<Rightarrow>
          (let currentState = (if status \<noteq> S ''Failed'' then st(''failureResaon'' \<mapsto> S '''') else st) in
           if has_keys previousState [''desiredCapacity'', ''actualCapacity'', ''scalingStatus'']
              \<and> has_keys currentState [''desiredCapacity'', ''actualCapacity'', ''scalingStatus'']
              \<and> float_returns py currentState ''actualCapacity''
              \<and> float_returns py currentState ''desiredCapacity''
              \<and> has_keys currentState
                   [''dimensionName'', ''resourceName'', ''scalableTargetDimensionId'', ''version'']
           then
             \<lparr>statusCode =
                (if list_all (is_str currentState)
                      [''dimensionName'', ''resourceName'', ''scalableTargetDimensionId'', ''version'']
                    \<and> (is_str currentState ''scalingStatus'' \<or> status_is_int)
                 then 200 else 500),
              sm_requests = rs,
              written = Some (currentState(''id'' \<mapsto> dimensionId, ''lastModified'' \<mapsto> N now_ms))\<rparr>
           else \<lparr>statusCode = 500, sm_requests = rs, written = None\<rparr>))"

text \<open>
  \<^verbatim>\<open>lambda_handler\<close> of asg-activity-lambda.py.  \<open>stored\<close> is the item found under
  the request's dimension id (\<^verbatim>\<open>read_state\<close> returns the empty dict when there is
  none), \<open>item\<close> the stored pool configuration.  An exception anywhere is answered
  with 500 and nothing is written; requests already sent stay sent.
\<close>

definition lambda_handler ::
  "python \<Rightarrow> event \<Rightarrow> state option \<Rightarrow> config_item option \<Rightarrow> int \<Rightarrow> handler_result" where
  "lambda_handler py ev stored item now_ms =
     (if body ev = InvalidJson then \<lparr>statusCode = 400, sm_requests = [], written = None\<rparr>
      else
        (let bodyData = (case body ev of JsonBody b \<Rightarrow> b | NoBody \<Rightarrow> [] | InvalidJson \<Rightarrow> []);
             http_method = (case httpMethod ev of Some m \<Rightarrow> m | None \<Rightarrow> ''GET'');
             st = (case stored of Some s \<Rightarrow> s | None \<Rightarrow> Map.empty)
         in case get_item st ''scalableTargetDimensionId'' of
              Inl e \<Rightarrow> \<lparr>statusCode = 500, sm_requests = [], written = None\<rparr>
            | Inr dimensionId \<Rightarrow>
                (if bodyData \<noteq> [] \<and> http_method = ''PATCH'' then
                   (case patch_state py st bodyData item of
                      (st1, rs, Some e) \<Rightarrow> \<lparr>statusCode = 500, sm_requests = rs, written = None\<rparr>
                    | (st1, rs, None) \<Rightarrow>
                        respond py
                          (case map_of bodyData ''scalingStatus'' of
                             Some (N n) \<Rightarrow> True | Some (S s) \<Rightarrow> False | None \<Rightarrow> False)
                          st dimensionId st1 rs now_ms)
                 else if http_method \<noteq> ''GET'' then
                   \<lparr>statusCode = 405, sm_requests = [], written = None\<rparr>
                 else
                   (case reconcile py st item now_ms of
                      (st1, rs, Some e) \<Rightarrow> \<lparr>statusCode = 500, sm_requests = rs, written = None\<rparr>
                    | (st1, rs, None) \<Rightarrow> respond py False st dimensionId st1 rs now_ms))))"

section \<open>endpoint-state-lambda.py: status events and the weight rebalancer\<close>

text \<open>The loop of lines 176 and 177,
  \<^verbatim>\<open>for i in range(len(weights)): weights[i] = int(currentInstanceCount[i] / gcd_value)\<close>:
  the new weights, or the exception of the first step that raises (\<^verbatim>\<open>IndexError\<close>
  when there are more weights than counts).\<close>

fun reweigh_loop :: "int list \<Rightarrow> int list \<Rightarrow> int \<Rightarrow> py_error + int list" where
  "reweigh_loop [] cs gcd_value = Inr []"
| "reweigh_loop (w # ws) [] gcd_value = Inl IndexError"
| "reweigh_loop (w # ws) (c # cs) gcd_value =
     (case int_truediv c gcd_value of
        Inl e \<Rightarrow> Inl e
      | Inr q \<Rightarrow>
          (case reweigh_loop ws cs gcd_value of
             Inl e \<Rightarrow> Inl e
           | Inr r \<Rightarrow> Inr (q # r)))"

text \<open>
  The weight rebalancer, lines 174 to 179.  \<^verbatim>\<open>math.gcd(*counts)\<close> (Python 3.9 and
  later) is the non-negative greatest common divisor of all counts, 0 for no count
  and for counts that are all 0.  \<^verbatim>\<open>weights[0] = 1\<close> raises \<^verbatim>\<open>IndexError\<close> on an
  empty list.
\<close>

definition rebalance :: "int list \<Rightarrow> int list \<Rightarrow> py_error + int list" where
  "rebalance cs ws =
     (let gcd_value = fold gcd cs 0 in
      case (if gcd_value \<noteq> 0 then reweigh_loop ws cs gcd_value else Inr ws) of
        Inl e \<Rightarrow> Inl e
      | Inr ws1 \<Rightarrow>
          (if sum_list ws1 = 0
           then (case ws1 of [] \<Rightarrow> Inl IndexError | w # rest \<Rightarrow> Inr (1 # rest))
           else Inr ws1))"

text \<open>\<^verbatim>\<open>s.split(sep)\<close> for a one-character separator, and \<^verbatim>\<open>sub in s\<close> on strings.\<close>

fun split_on :: "char \<Rightarrow> string \<Rightarrow> string list" where
  "split_on sep [] = [[]]"
| "split_on sep (x # xs) =
     (if x = sep then [] # split_on sep xs
      else (case split_on sep xs of
              p # ps \<Rightarrow> (x # p) # ps
            | [] \<Rightarrow> [[x]]))"

fun starts_with :: "string \<Rightarrow> string \<Rightarrow> bool" where
  "starts_with s [] = True"
| "starts_with [] (y # ys) = False"
| "starts_with (x # xs) (y # ys) = (x = y \<and> starts_with xs ys)"

fun contains :: "string \<Rightarrow> string \<Rightarrow> bool" where
  "contains [] sub = (sub = [])"
| "contains (x # xs) sub = (starts_with (x # xs) sub \<or> contains xs sub)"

text \<open>
  The detail of a status event: \<^verbatim>\<open>detail.get('EndpointName')\<close>,
  \<^verbatim>\<open>detail.get('EndpointStatus')\<close> and
  \<^verbatim>\<open>detail.get("ProductionVariants")[0].get("DesiredInstanceCount")\<close> (\<open>None\<close> when the
  path is missing, which raises as soon as the value is used).
\<close>

record endpoint_event =
  endpoint_name :: "string option"
  endpoint_status :: "string option"
  reported_count :: "int option"

text \<open>What one event does: the status code, the control-plane requests sent, the
  pool configuration item and the scaling state item put into the table.\<close>

record event_result =
  ev_statusCode :: nat
  ev_requests :: "request list"
  written_config :: "config_item option"
  written_state :: "state option"

definition event_failed :: event_result where
  "event_failed = \<lparr>ev_statusCode = 500, ev_requests = [], written_config = None, written_state = None\<rparr>"

definition event_ignored :: event_result where
  "event_ignored = \<lparr>ev_statusCode = 200, ev_requests = [], written_config = None, written_state = None\<rparr>"

text \<open>\<^verbatim>\<open>write_state\<close> of endpoint-state-lambda.py: \<open>dimensionId\<close> is the environment's
  \<^verbatim>\<open>DIMENSION_ID\<close>, the key the state was read under.\<close>

definition write_state :: "state \<Rightarrow> string \<Rightarrow> int \<Rightarrow> state" where
  "write_state st dimensionId now_ms = st(''id'' \<mapsto> S dimensionId, ''lastModified'' \<mapsto> N now_ms)"

text \<open>The branches that only set the status and write the state (lines 187 to 218).\<close>

definition set_status :: "state \<Rightarrow> string \<Rightarrow> string \<Rightarrow> int \<Rightarrow> event_result" where
  "set_status st status dimensionId now_ms =
     \<lparr>ev_statusCode = 200, ev_requests = [], written_config = None,
      written_state = Some (write_state (st(''scalingStatus'' \<mapsto> S status)) dimensionId now_ms)\<rparr>"

text \<open>
  The \<^verbatim>\<open>IN_SERVICE\<close> branch, lines 161 to 185.  \<open>ss\<close>, \<open>ws\<close> and \<open>cs\<close> are the
  servers, weights and instance counts read by \<^verbatim>\<open>get_server_config\<close>.
\<close>

definition in_service ::
  "string \<Rightarrow> int option \<Rightarrow> string list \<Rightarrow> int list \<Rightarrow> int list \<Rightarrow> state \<Rightarrow> string \<Rightarrow> int \<Rightarrow> event_result" where
  "in_service name reported ss ws cs st dimensionId now_ms =
     (case split_on CHR ''-'' name of
        p # srv # rest \<Rightarrow>
          (case list_index ss srv of
             None \<Rightarrow> event_failed
           | Some index \<Rightarrow>
               (case reported of
                  None \<Rightarrow> event_failed
                | Some r \<Rightarrow>
                    (if index < length cs then
                       (let cs1 = cs[index := r];
                            st1 = st(''actualCapacity'' \<mapsto> N (sum_list cs1))
                        in case get_num st1 ''desiredCapacity'' of
                             Inl e \<Rightarrow> event_failed
                           | Inr desired \<Rightarrow>
                               (if desired < sum_list cs1 \<and> cs1 ! index > 0 then
                                  (case get_str st1 ''variantName'' of
                                     Inl e \<Rightarrow> event_failed
                                   | Inr vn \<Rightarrow>
                                       \<lparr>ev_statusCode = 200,
                                        ev_requests =
                                          [\<lparr>EndpointName = name, VariantName = vn,
                                            DesiredInstanceCount = cs1 ! index - 1\<rparr>],
                                        written_config =
                                          Some \<lparr>servers = Some ss, weights = Some ws,
                                                current_instance_count = Some cs1\<rparr>,
                                        written_state =
                                          Some (write_state (st1(''scalingStatus'' \<mapsto> S ''InProgress''))
                                                  dimensionId now_ms)\<rparr>)
                                else if desired = sum_list cs1 then
                                  (case rebalance cs1 ws of
                                     Inl e \<Rightarrow> event_failed
                                   | Inr ws1 \<Rightarrow>
                                       \<lparr>ev_statusCode = 200, ev_requests = [],
                                        written_config =
                                          Some \<lparr>servers = Some ss, weights = Some ws1,
                                                current_instance_count = Some cs1\<rparr>,
                                        written_state =
                                          Some (write_state (st1(''scalingStatus'' \<mapsto> S ''Successful''))
                                                  dimensionId now_ms)\<rparr>)
                                else
                                  \<lparr>ev_statusCode = 200, ev_requests = [],
                                   written_config =
                                     Some \<lparr>servers = Some ss, weights = Some ws,
                                           current_instance_count = Some cs1\<rparr>,
                                   written_state =
                                     Some (write_state (st1(''scalingStatus'' \<mapsto> S ''InProgress''))
                                             dimensionId now_ms)\<rparr>))
                     else event_failed)))
      | [p] \<Rightarrow> event_failed
      | [] \<Rightarrow> event_failed)"

text \<open>
  \<^verbatim>\<open>handle_endpoint_status_change\<close>.  \<open>item\<close> is the stored pool configuration
  (\<^verbatim>\<open>ConfigurationError\<close> when there is none), \<open>stored\<close> the stored scaling state
  (\<^verbatim>\<open>read_state\<close> returns the empty dict when there is none).  Every exception
  is answered with 500, by the \<^verbatim>\<open>except\<close> clause of this function or, when that
  clause fails on the name \<^verbatim>\<open>endpoint_name\<close> not yet bound, by the one of
  \<^verbatim>\<open>lambda_handler\<close>; none is raised after a write.
\<close>

definition handle_endpoint_status_change ::
  "endpoint_event \<Rightarrow> config_item option \<Rightarrow> state option \<Rightarrow> string \<Rightarrow> int \<Rightarrow> event_result" where
  "handle_endpoint_status_change ev item stored dimensionId now_ms =
     (case item of
        None \<Rightarrow> event_failed
      | Some config \<Rightarrow>
          (let ss = (case servers config of Some l \<Rightarrow> l | None \<Rightarrow> []);
               ws = (case weights config of Some l \<Rightarrow> l | None \<Rightarrow> replicate (length ss) 0);
               cs = (case current_instance_count config of Some l \<Rightarrow> l
                     | None \<Rightarrow> replicate (length ss) 0);
               st = (case stored of Some s \<Rightarrow> s | None \<Rightarrow> Map.empty)
           in case endpoint_name ev of
                None \<Rightarrow> event_failed
              | Some name \<Rightarrow>
                  (case st ''resourceName'' of
                     Some (S rn) \<Rightarrow>
                       (if contains name rn then
                          (if endpoint_status ev = Some ''IN_SERVICE'' then
                             in_service name (reported_count ev) ss ws cs st dimensionId now_ms
                           else if endpoint_status ev = Some ''FAILED'' then
                             set_status st ''Failed'' dimensionId now_ms
                           else if endpoint_status ev = Some ''CREATING'' then
                             set_status st ''Pending'' dimensionId now_ms
                           else if endpoint_status ev = Some ''UPDATING'' then
                             set_status st ''InProgress'' dimensionId now_ms
                           else if endpoint_status ev = Some ''SYSTEM_UPDATING'' then
                             set_status st ''Pending'' dimensionId now_ms
                           else if endpoint_status ev = Some ''ROLLING_BACK'' then
                             set_status st ''Pending'' dimensionId now_ms
                           else if endpoint_status ev = Some ''OUT_OF_SERVICE'' then
                             set_status st ''Failed'' dimensionId now_ms
                           else event_ignored)
                        else event_ignored)
                   | Some (N n) \<Rightarrow> event_failed
                   | None \<Rightarrow> event_failed)))"

section \<open>Sample inputs\<close>

text \<open>A pool of three servers and a complete scaling state record, used where a
  statement is instantiated at a concrete input.\<close>

definition sample_pool :: "int list \<Rightarrow> int list \<Rightarrow> config_item option" where
  "sample_pool ws cs =
     Some \<lparr>servers = Some [''server1'', ''server2'', ''server3''], weights = Some ws,
           current_instance_count = Some cs\<rparr>"

definition sample_state :: "string \<Rightarrow> int \<Rightarrow> int \<Rightarrow> int \<Rightarrow> state" where
  "sample_state status desired actual modified =
     [''id'' \<mapsto> S ''dim-1'', ''scalableTargetDimensionId'' \<mapsto> S ''dim-1'',
      ''resourceName'' \<mapsto> S ''ep'', ''variantName'' \<mapsto> S ''AllTraffic'',
      ''dimensionName'' \<mapsto> S ''DesiredInstanceCount'',
      ''desiredCapacity'' \<mapsto> N desired, ''actualCapacity'' \<mapsto> N actual,
      ''scalingStatus'' \<mapsto> S status, ''lastModified'' \<mapsto> N modified,
      ''failureReason'' \<mapsto> S '''', ''version'' \<mapsto> S ''1'']"

text \<open>Readers that accept no string.  They are not consulted where every number of
  the input is a number.\<close>

definition sample_python :: python where
  "sample_python = \<lparr>decimal_of_str = (\<lambda>s. None), float_of_str = (\<lambda>s. False)\<rparr>"

section \<open>Properties of the weighted selector\<close>

lemma weight_walk_bounds:
  "weight_walk ws p cum i = Some k \<Longrightarrow> i \<le> k \<and> k < i + length ws"
proof (induction ws arbitrary: cum i)
  case Nil
  then show ?case by simp
next
  case (Cons w rest)
  show ?case
  proof (cases "p \<le> cum + w")
    case True
    with Cons.prems show ?thesis by simp
  next
    case False
    with Cons.prems have "weight_walk rest p (cum + w) (Suc i) = Some k" by simp
    from Cons.IH [OF this] show ?thesis by simp
  qed
qed

lemma weight_walk_reaches:
  "p \<le> cum + sum_list ws \<Longrightarrow> ws \<noteq> [] \<Longrightarrow> \<exists>k. weight_walk ws p cum i = Some k"
proof (induction ws arbitrary: cum i)
  case Nil
  then show ?case by simp
next
  case (Cons w rest)
  show ?case
  proof (cases "p \<le> cum + w")
    case True
    then show ?thesis by simp
  next
    case False
    with Cons.prems have "rest \<noteq> []" by (cases rest) auto
    moreover from Cons.prems have "p \<le> (cum + w) + sum_list rest" by (simp add: add.assoc)
    ultimately obtain k where "weight_walk rest p (cum + w) (Suc i) = Some k"
      using Cons.IH by blast
    with False show ?thesis by simp
  qed
qed

lemma get_server_config_shape:
  "get_server_config item = Inr (ss, ws) \<Longrightarrow> length ss = length ws \<and> ws \<noteq> []"
  by (auto simp: get_server_config_def Let_def split: option.splits if_splits)

lemma counter_always_available:
  "\<exists>c. (case get_and_increment_counter response now_ms of
           Inr n \<Rightarrow> Inr n
         | Inl e \<Rightarrow> (case fallback_count e of Some f \<Rightarrow> Inr f | None \<Rightarrow> Inl e)) = Inr c"
  by (cases response) (auto simp: get_and_increment_counter_def split: option.splits)

text \<open>
  Claim C1.  With the weights \<open>[5, 3, 2]\<close> (total 10) and a counter value \<open>c\<close> from 0 to
  9, the selector returns the first backend for \<open>c\<close> in 0..4, the second for \<open>c\<close> in
  5..7 and the third for \<open>c\<close> in 8..9, reporting \<open>c + 1\<close> as the request count; and over
  the ten counter values of one cycle three distinct backends are chosen 5, 3 and 2
  times.
\<close>

theorem weighted_selection_5_3_2:
  "(0 \<le> c \<and> c \<le> 9 \<longrightarrow>
     get_next_server
       (Some \<lparr>servers = Some [s0, s1, s2], weights = Some [5, 3, 2], current_instance_count = cic\<rparr>)
       (Updated (Some c)) now_ms uuid =
     Inr \<lparr>server = (if c \<le> 4 then s0 else if c \<le> 7 then s1 else s2), request_id = uuid,
          request_count = c + 1, warning = None\<rparr>)
   \<and> (distinct [s0, s1, s2] \<longrightarrow>
     map (\<lambda>s. length (filter
            (\<lambda>k. get_next_server
                   (Some \<lparr>servers = Some [s0, s1, s2], weights = Some [5, 3, 2],
                          current_instance_count = cic\<rparr>)
                   (Updated (Some k)) now_ms uuid =
                 Inr \<lparr>server = s, request_id = uuid, request_count = k + 1, warning = None\<rparr>)
            [0, 1, 2, 3, 4, 5, 6, 7, 8, 9]))
       [s0, s1, s2] = [5, 3, 2])"
  by (auto simp: get_next_server_def get_server_config_def get_and_increment_counter_def)

theorem weighted_selection_5_3_2_witness:
  "(0 \<le> (6::int) \<and> (6::int) \<le> 9) \<and>
   get_next_server
     (Some \<lparr>servers = Some [''server1'', ''server2'', ''server3''], weights = Some [5, 3, 2],
            current_instance_count = Some [5, 3, 2]\<rparr>)
     (Updated (Some 6)) 0 ''id'' =
   Inr \<lparr>server = ''server2'', request_id = ''id'', request_count = 7, warning = None\<rparr>
   \<and> distinct [''server1'', ''server2'', ''server3'']
   \<and> map (\<lambda>s. length (filter
            (\<lambda>k. get_next_server
                   (Some \<lparr>servers = Some [''server1'', ''server2'', ''server3''],
                          weights = Some [5, 3, 2], current_instance_count = Some [5, 3, 2]\<rparr>)
                   (Updated (Some k)) 0 ''id'' =
                 Inr \<lparr>server = s, request_id = ''id'', request_count = k + 1, warning = None\<rparr>)
            [0, 1, 2, 3, 4, 5, 6, 7, 8, 9]))
       [''server1'', ''server2'', ''server3''] = [5, 3, 2]"
  using weighted_selection_5_3_2 [of 6 "''server1''" "''server2''" "''server3''" "Some [5, 3, 2]" 0 "''id''"]
  by simp

text \<open>
  Claim C9.  When the weights of the stored configuration sum to 0 or less, the
  selection fails for every answer of the counter and every clock value: with the
  error "Invalid server weights configuration" (status 500) when servers and weights
  are non-empty lists of equal length, and with the error of the configuration check
  otherwise.  No backend is returned.
\<close>

theorem nonpositive_total_weight_is_rejected:
  assumes "sum_list (case weights config of Some l \<Rightarrow> l | None \<Rightarrow> []) \<le> 0"
  shows "get_next_server (Some config) response now_ms uuid =
           Inl (LoadBalancerError
                  (if (case servers config of Some l \<Rightarrow> l | None \<Rightarrow> []) = []
                      \<or> (case weights config of Some l \<Rightarrow> l | None \<Rightarrow> []) = []
                      \<or> length (case servers config of Some l \<Rightarrow> l | None \<Rightarrow> [])
                          \<noteq> length (case weights config of Some l \<Rightarrow> l | None \<Rightarrow> [])
                   then ''Failed to retrieve server configuration''
                   else ''Invalid server weights configuration'')
                  500 None)"
  using assms
  by (cases response)
     (auto simp: get_next_server_def get_server_config_def get_and_increment_counter_def Let_def
           split: option.splits)

theorem nonpositive_total_weight_is_rejected_witness:
  "sum_list (case weights \<lparr>servers = Some [''a'', ''b''], weights = Some [0, 0],
                          current_instance_count = Some [0, 0]\<rparr> of Some l \<Rightarrow> l | None \<Rightarrow> []) \<le> 0
   \<and> get_next_server
        (Some \<lparr>servers = Some [''a'', ''b''], weights = Some [0, 0],
               current_instance_count = Some [0, 0]\<rparr>)
        (Updated (Some 3)) 0 ''id'' =
      Inl (LoadBalancerError ''Invalid server weights configuration'' 500 None)"
  using nonpositive_total_weight_is_rejected
    [of "\<lparr>servers = Some [''a'', ''b''], weights = Some [0, 0],
          current_instance_count = Some [0, 0]\<rparr>" "Updated (Some 3)" 0 "''id''"]
  by simp

text \<open>
  Claim C10.  For a configuration that passes the configuration check and whose
  weights sum to more than 0, the walk over the weights returns at an index inside
  the list for every counter value, so the decision carries no warning: the trailing
  fallback return is never taken.
\<close>

theorem fallback_branch_unreachable:
  assumes "get_server_config item = Inr (ss, ws)" and "0 < sum_list ws"
  shows "\<exists>c i. i < length ss \<and>
           weight_walk ws ((c mod sum_list ws) + 1) 0 0 = Some i \<and>
           get_next_server item response now_ms uuid =
             Inr \<lparr>server = ss ! i, request_id = uuid, request_count = c + 1, warning = None\<rparr>"
proof -
  from get_server_config_shape [OF assms(1)] have len: "length ss = length ws" and ne: "ws \<noteq> []"
    by simp_all
  from counter_always_available obtain c where
    c: "(case get_and_increment_counter response now_ms of
           Inr n \<Rightarrow> Inr n
         | Inl e \<Rightarrow> (case fallback_count e of Some f \<Rightarrow> Inr f | None \<Rightarrow> Inl e)) = Inr c"
    by blast
  let ?p = "(c mod sum_list ws) + 1"
  have "?p \<le> 0 + sum_list ws"
    using pos_mod_bound [OF assms(2), of c] by linarith
  from weight_walk_reaches [OF this ne] obtain i where i: "weight_walk ws ?p 0 0 = Some i"
    by blast
  from weight_walk_bounds [OF i] len have "i < length ss" by simp
  with i c assms show ?thesis
    by (auto simp: get_next_server_def Let_def)
qed

theorem fallback_branch_unreachable_witness:
  "get_server_config None = Inr ([''server1'', ''server2'', ''server3''], [5, 3, 2])
   \<and> 0 < sum_list [5, 3, 2 :: int]
   \<and> (\<exists>c i. i < length [''server1'', ''server2'', ''server3''] \<and>
           weight_walk [5, 3, 2] ((c mod sum_list [5, 3, 2]) + 1) 0 0 = Some i \<and>
           get_next_server None (Updated (Some 12)) 0 ''id'' =
             Inr \<lparr>server = [''server1'', ''server2'', ''server3''] ! i, request_id = ''id'',
                  request_count = c + 1, warning = None\<rparr>)"
proof -
  have h1: "get_server_config None = Inr ([''server1'', ''server2'', ''server3''], [5, 3, 2])"
    by (simp add: get_server_config_def)
  have h2: "0 < sum_list [5, 3, 2 :: int]" by simp
  from fallback_branch_unreachable [OF h1 h2, of "Updated (Some 12)" 0 "''id''"] h1 h2
  show ?thesis by blast
qed

text \<open>
  Claim C6, as the code has it.  When the counter's increment fails (a
  \<^verbatim>\<open>ClientError\<close> or any other exception), the selector goes on with the counter
  value \<open>now_ms mod 1000\<close>, and what it returns is exactly what an exact run returns
  for that counter value: the decision has the same three keys and no tag.
\<close>

theorem counter_failure_uses_clock_fallback:
  "get_next_server item (ClientError error_code) now_ms uuid =
     get_next_server item (Updated (Some (now_ms mod 1000))) now_ms uuid
   \<and> get_next_server item OtherException now_ms uuid =
     get_next_server item (Updated (Some (now_ms mod 1000))) now_ms uuid"
  by (cases "get_server_config item")
     (auto simp: get_next_server_def get_and_increment_counter_def)

text \<open>
  The claim as stated fails: with the default pool, a run whose counter increment is
  throttled at a clock value ending in 007 and an exact run with counter value 7
  return the same decision, so the caller cannot tell the degraded selection from the
  exact one.
\<close>

theorem degraded_selection_not_tagged:
  "get_next_server None (ClientError ''ThrottlingException'') 1700000001007 ''id'' =
     Inr \<lparr>server = ''server2'', request_id = ''id'', request_count = 8, warning = None\<rparr>
   \<and> get_next_server None (Updated (Some 7)) 1700000001007 ''id'' =
     Inr \<lparr>server = ''server2'', request_id = ''id'', request_count = 8, warning = None\<rparr>"
  by (simp add: get_next_server_def get_and_increment_counter_def get_server_config_def)

section \<open>Properties of the arithmetic\<close>

lemma ndigits_le: "n < b ^ k \<Longrightarrow> 0 < k \<Longrightarrow> ndigits b n \<le> k"
proof (induction k arbitrary: n)
  case 0
  then show ?case by simp
next
  case (Suc k)
  show ?case
  proof (cases "n < b \<or> b < 2")
    case True
    then show ?thesis by (subst ndigits.simps) simp
  next
    case False
    then have b: "2 \<le> b" and nb: "b \<le> n" by simp_all
    have k: "0 < k"
    proof (rule ccontr)
      assume "\<not> 0 < k"
      with Suc.prems nb show False by simp
    qed
    from Suc.prems(1) have "n < b * b ^ k" by simp
    then have "n div b < b ^ k" using b
      by (simp add: less_mult_imp_div_less mult.commute)
    from Suc.IH [OF this k] False show ?thesis by (subst ndigits.simps) simp
  qed
qed

lemma decimal_round_small: "\<bar>x\<bar> < 10 ^ 28 \<Longrightarrow> decimal_round x = x"
proof -
  assume "\<bar>x\<bar> < 10 ^ 28"
  then have "nat \<bar>x\<bar> < 10 ^ 28" by (simp add: nat_less_iff)
  then have "ndigits 10 (nat \<bar>x\<bar>) \<le> 28" by (rule ndigits_le) simp
  then show ?thesis by (simp add: decimal_round_def Let_def)
qed

lemma decimal_limit_large: "10 ^ 28 \<le> decimal_limit"
  unfolding decimal_limit_def by (rule power_increasing) simp_all

lemma decimal_result_small: "\<bar>x\<bar> < 10 ^ 28 \<Longrightarrow> decimal_result x = Inr x"
  using decimal_limit_large by (simp add: decimal_result_def decimal_round_small)

lemma sgn_quotient:
  fixes c g :: int
  assumes "g dvd c" and "g \<noteq> 0"
  shows "sgn c * sgn g * (\<bar>c\<bar> div \<bar>g\<bar>) = c div g"
proof -
  from assms(1) obtain k where k: "c = g * k" by (auto simp: dvd_def)
  have "\<bar>g * k\<bar> div \<bar>g\<bar> = \<bar>k\<bar>" using assms(2) by (simp add: abs_mult)
  moreover have "sgn (g * k) * sgn g = sgn k"
    using assms(2) by (simp add: sgn_mult mult.commute mult.left_commute flip: mult.assoc)
  ultimately have "sgn (g * k) * sgn g * (\<bar>g * k\<bar> div \<bar>g\<bar>) = k" by (simp add: sgn_mult_abs)
  with k assms(2) show ?thesis by simp
qed

lemma round_half_even_exact: "0 < d \<Longrightarrow> d dvd n \<Longrightarrow> round_half_even n d = n div d"
  by (auto simp: round_half_even_def Let_def)

lemma int_truediv_exact:
  assumes dvd: "g dvd c" and g: "g \<noteq> 0" and small: "\<bar>c\<bar> < 2 ^ 53"
  shows "int_truediv c g = Inr (c div g)"
proof -
  let ?n = "nat \<bar>c\<bar>" and ?d = "nat \<bar>g\<bar>"
  from g have d: "0 < ?d" by simp
  from dvd have nd: "?d dvd ?n" by (simp add: nat_abs_dvd_iff)
  have q: "int (?n div ?d) = \<bar>c\<bar> div \<bar>g\<bar>" by (simp add: zdiv_int)
  show ?thesis
  proof (cases "?n < ?d")
    case True
    have "?n = 0"
    proof (rule ccontr)
      assume "?n \<noteq> 0"
      then have "0 < ?n" by linarith
      from dvd_imp_le [OF nd this] True show False by linarith
    qed
    then have "c = 0" by (simp del: nat_abs_dvd_iff)
    with g True show ?thesis by (simp add: int_truediv_def)
  next
    case False
    from small have "?n < 2 ^ 53" by (simp add: nat_less_iff)
    then have "?n div ?d < 2 ^ 53" using div_le_dividend [of ?n ?d] by linarith
    then have "ndigits 2 (?n div ?d) \<le> 53" by (rule ndigits_le) simp
    then have e: "ndigits 2 (?n div ?d) - 1 \<le> 52" by simp
    let ?sh = "52 - (ndigits 2 (?n div ?d) - 1)"
    from nd have "?d dvd ?n * 2 ^ ?sh" by simp
    from round_half_even_exact [OF d this]
    have "round_half_even (?n * 2 ^ ?sh) ?d = (?n * 2 ^ ?sh) div ?d" .
    also have "\<dots> = (?n div ?d) * 2 ^ ?sh" by (rule dvd_div_mult [OF nd, symmetric])
    finally have r: "round_half_even (?n * 2 ^ ?sh) ?d = (?n div ?d) * 2 ^ ?sh" .
    have pos: "(0::nat) < 2 ^ ?sh" by simp
    have unshift: "round_half_even (?n * 2 ^ ?sh) ?d div 2 ^ ?sh = ?n div ?d"
      unfolding r by (rule div_mult_self_is_m [OF pos])
    have "int_truediv c g =
            Inr (sgn c * sgn g * int (round_half_even (?n * 2 ^ ?sh) ?d div 2 ^ ?sh))"
      using g False e by (simp only: int_truediv_def Let_def if_False if_True)
    also have "\<dots> = Inr (sgn c * sgn g * (\<bar>c\<bar> div \<bar>g\<bar>))"
      by (simp only: unshift q)
    also have "\<dots> = Inr (c div g)"
      by (simp only: sgn_quotient [OF dvd g])
    finally show ?thesis .
  qed
qed

section \<open>Properties of the redistribution\<close>

lemma sample_state_fields:
  "sample_state status desired actual modified ''scalableTargetDimensionId'' = Some (S ''dim-1'')"
  "sample_state status desired actual modified ''dimensionName'' = Some (S ''DesiredInstanceCount'')"
  "sample_state status desired actual modified ''resourceName'' = Some (S ''ep'')"
  "sample_state status desired actual modified ''variantName'' = Some (S ''AllTraffic'')"
  "sample_state status desired actual modified ''version'' = Some (S ''1'')"
  "sample_state status desired actual modified ''desiredCapacity'' = Some (N desired)"
  "sample_state status desired actual modified ''actualCapacity'' = Some (N actual)"
  "sample_state status desired actual modified ''scalingStatus'' = Some (S status)"
  "sample_state status desired actual modified ''lastModified'' = Some (N modified)"
  "sample_state status desired actual modified ''failureReason'' = Some (S '''')"
  "sample_state status desired actual modified ''failureResaon'' = None"
  by (simp_all add: sample_state_def)

lemma sample_pool_config:
  "asg_get_server_config (sample_pool ws cs) = Inr ([''server1'', ''server2'', ''server3''], cs, ws)"
  by (simp add: sample_pool_def asg_get_server_config_def)

lemma endpoint_args_ok:
  "st ''resourceName'' = Some (S rn) \<Longrightarrow> st ''variantName'' = Some (S vn) \<Longrightarrow>
   endpoint_args st srv = Inr (rn @ ''-'' @ srv, vn)"
  by (simp add: endpoint_args_def get_str_def)

lemma scale_down_loop_shift:
  "scale_down_loop st ss (c # cs) (Suc i) delta = scale_down_loop st ss cs i delta"
proof (induction ss arbitrary: i delta)
  case Nil
  then show ?case by simp
next
  case (Cons s ss)
  show ?case
  proof (cases "decimal_result (- delta)")
    case (Inl e)
    then show ?thesis by simp
  next
    case (Inr m)
    show ?thesis
    proof (cases "endpoint_args st s")
      case (Inl e)
      with Inr Cons.IH show ?thesis by simp
    next
      case args: (Inr p)
      obtain en vn where p: "p = (en, vn)" by (cases p)
      show ?thesis
      proof (cases "decimal_result (delta + cs ! i)")
        case (Inl e)
        with Inr args p Cons.IH show ?thesis by (simp split: sum.splits)
      next
        case d1: (Inr delta1)
        with Inr args p Cons.IH show ?thesis by (simp split: sum.splits)
      qed
    qed
  qed
qed

lemma scale_up_loop_shift:
  "scale_up_loop st ss (c # cs) (Suc i) delta = scale_up_loop st ss cs i delta"
proof (induction ss arbitrary: i)
  case Nil
  then show ?case by simp
next
  case (Cons s ss)
  show ?case
  proof (cases "endpoint_args st s")
    case (Inl e)
    then show ?thesis by simp
  next
    case (Inr p)
    obtain en vn where p: "p = (en, vn)" by (cases p)
    from Inr p Cons.IH show ?thesis by (simp split: sum.splits)
  qed
qed

lemma scale_up_loop_all:
  assumes rn: "st ''resourceName'' = Some (S rn)" and vn: "st ''variantName'' = Some (S vn)"
    and len: "length ss = length cs"
    and small: "\<forall>c\<in>set cs. \<bar>c + delta\<bar> < 10 ^ 28"
  shows "scale_up_loop st ss cs 0 delta =
           (map (\<lambda>(s, c). \<lparr>EndpointName = rn @ ''-'' @ s, VariantName = vn,
                            DesiredInstanceCount = c + delta\<rparr>) (zip ss cs), None)"
  using len small
proof (induction ss cs rule: list_induct2)
  case Nil
  then show ?case by simp
next
  case (Cons s ss c cs)
  from Cons.prems have "\<bar>c + delta\<bar> < 10 ^ 28" and rest: "\<forall>c\<in>set cs. \<bar>c + delta\<bar> < 10 ^ 28"
    by simp_all
  from decimal_result_small [OF this(1)] Cons.IH [OF rest] show ?case
    by (simp add: endpoint_args_ok [OF rn vn] scale_up_loop_shift update_endpoint_def)
qed

lemma scale_down_loop_shape:
  assumes rn: "st ''resourceName'' = Some (S rn)" and vn: "st ''variantName'' = Some (S vn)"
    and len: "length ss = length cs" and range: "\<forall>c\<in>set cs. 0 \<le> c \<and> c < 10 ^ 28"
    and le: "delta \<le> 0" and ge: "- (10 ^ 28) < delta"
  shows "\<exists>k\<le>length ss.
           scale_down_loop st ss cs 0 delta =
             (map (\<lambda>(s, c). \<lparr>EndpointName = rn @ ''-'' @ s, VariantName = vn,
                              DesiredInstanceCount = 0\<rparr>)
                  (filter (\<lambda>(s, c). 0 < c) (take k (zip ss cs)))
              @ (if k < length ss
                 then [\<lparr>EndpointName = rn @ ''-'' @ ss ! k, VariantName = vn,
                        DesiredInstanceCount = cs ! k + (delta + sum_list (take k cs))\<rparr>]
                 else []), None)
           \<and> (\<forall>j<k. cs ! j \<le> - (delta + sum_list (take j cs)))
           \<and> (k < length ss \<longrightarrow> - (delta + sum_list (take k cs)) < cs ! k)
           \<and> delta + sum_list (take k cs) \<le> 0"
  using len range le ge
proof (induction ss cs arbitrary: delta rule: list_induct2)
  case Nil
  then show ?case by simp
next
  case (Cons s ss c cs)
  note args = endpoint_args_ok [OF rn vn]
  from Cons.prems have c0: "0 \<le> c" and c1: "c < 10 ^ 28"
    and rest: "\<forall>c\<in>set cs. 0 \<le> c \<and> c < 10 ^ 28" by simp_all
  from Cons.prems have "\<bar>- delta\<bar> < 10 ^ 28" by simp
  from decimal_result_small [OF this] have neg: "decimal_result (- delta) = Inr (- delta)" .
  show ?case
  proof (cases "c > - delta")
    case True
    with Cons.prems c1 have "\<bar>c + delta\<bar> < 10 ^ 28" by simp
    from decimal_result_small [OF this] True Cons.prems show ?thesis
      by (intro exI [of _ 0]) (simp add: args neg update_endpoint_def)
  next
    case False
    from False have d': "delta + c \<le> 0" by simp
    from c0 Cons.prems have d'': "- (10 ^ 28) < delta + c" by simp
    from d' d'' have "\<bar>delta + c\<bar> < 10 ^ 28" by simp
    from decimal_result_small [OF this] have add: "decimal_result (delta + c) = Inr (delta + c)" .
    from Cons.IH [OF rest d' d''] obtain k where k: "k \<le> length ss"
      and run: "scale_down_loop st ss cs 0 (delta + c) =
             (map (\<lambda>(s, c). \<lparr>EndpointName = rn @ ''-'' @ s, VariantName = vn,
                              DesiredInstanceCount = 0\<rparr>)
                  (filter (\<lambda>(s, c). 0 < c) (take k (zip ss cs)))
              @ (if k < length ss
                 then [\<lparr>EndpointName = rn @ ''-'' @ ss ! k, VariantName = vn,
                        DesiredInstanceCount = cs ! k + (delta + c + sum_list (take k cs))\<rparr>]
                 else []), None)"
      and before: "\<forall>j<k. cs ! j \<le> - (delta + c + sum_list (take j cs))"
      and at: "k < length ss \<longrightarrow> - (delta + c + sum_list (take k cs)) < cs ! k"
      and le: "delta + c + sum_list (take k cs) \<le> 0"
      by blast
    have step: "scale_down_loop st (s # ss) (c # cs) 0 delta =
        (if 0 < c then
           (\<lparr>EndpointName = rn @ ''-'' @ s, VariantName = vn, DesiredInstanceCount = 0\<rparr>
              # fst (scale_down_loop st ss cs 0 (delta + c)),
            snd (scale_down_loop st ss cs 0 (delta + c)))
         else scale_down_loop st ss cs 0 (delta + c))"
      using False c0
      by (auto simp: args neg add scale_down_loop_shift update_endpoint_def split: prod.splits)
    have before': "\<forall>j<Suc k. (c # cs) ! j \<le> - (delta + sum_list (take j (c # cs)))"
    proof (intro allI impI)
      fix j assume "j < Suc k"
      show "(c # cs) ! j \<le> - (delta + sum_list (take j (c # cs)))"
      proof (cases j)
        case 0
        with False show ?thesis by simp
      next
        case (Suc j')
        with \<open>j < Suc k\<close> before show ?thesis by (simp add: add.assoc)
      qed
    qed
    show ?thesis
      using k run at le before' step
      by (intro exI [of _ "Suc k"]) (simp add: add.assoc)
  qed
qed

lemma list_index_first:
  "x \<in> set xs \<Longrightarrow> \<exists>k<length xs. list_index xs x = Some k \<and> xs ! k = x \<and> (\<forall>j<k. xs ! j \<noteq> x)"
proof (induction xs)
  case Nil
  then show ?case by simp
next
  case (Cons y ys)
  show ?case
  proof (cases "y = x")
    case True
    then show ?thesis by (intro exI [of _ 0]) simp
  next
    case False
    with Cons.prems have "x \<in> set ys" by simp
    from Cons.IH [OF this] obtain k where k: "k < length ys" "list_index ys x = Some k"
      "ys ! k = x" "\<forall>j<k. ys ! j \<noteq> x" by blast
    have "\<forall>j<Suc k. (y # ys) ! j \<noteq> x"
    proof (intro allI impI)
      fix j assume "j < Suc k"
      with k(4) False show "(y # ys) ! j \<noteq> x" by (cases j) auto
    qed
    with k False show ?thesis by (intro exI [of _ "Suc k"]) simp
  qed
qed

lemma list_index_None: "x \<notin> set xs \<Longrightarrow> list_index xs x = None"
  by (induction xs) auto

lemma nonneg_sum_zero:
  "\<forall>c\<in>set cs. (0::int) \<le> c \<Longrightarrow> (sum_list cs = 0) = (\<forall>c\<in>set cs. c = 0)"
  by (induction cs) (auto simp: sum_list_nonneg add_nonneg_eq_0_iff)

lemma update_scaling_delta:
  assumes "asg_get_server_config item = Inr (ss, cs, ws)"
    and "st ''desiredCapacity'' = Some (N desired)" and "st ''actualCapacity'' = Some (N actual)"
    and "\<bar>desired - actual\<bar> < 10 ^ 28"
  shows "update_scaling py st item =
     (if desired - actual > 0 then
        (if sum_list cs = 0 then
           (case get_str st ''resourceName'' of
              Inl e \<Rightarrow> ([], Some e)
            | Inr rn \<Rightarrow>
               (case list_index ws 1 of
                  None \<Rightarrow> ([], Some ValueError)
                | Some k \<Rightarrow>
                    (if k < length ss then
                       (case get_str st ''variantName'' of
                          Inl e \<Rightarrow> ([], Some e)
                        | Inr vn \<Rightarrow>
                            ([update_endpoint (rn @ ''-'' @ ss ! k) vn (desired - actual)], None))
                     else ([], Some IndexError))))
         else scale_up_loop st ss cs 0 (desired - actual))
      else if desired - actual < 0 then scale_down_loop st ss cs 0 (desired - actual)
      else ([], None))"
  using assms(1,2,3) decimal_result_small [OF assms(4)]
  by (simp add: update_scaling_def get_decimal_def to_decimal_def)

text \<open>
  Claim C3, as the code has it.  Scale down with desired capacity \<open>0 \<le> desired <
  actual < 10^28\<close>, counts aligned with the servers, not negative and below \<open>10^28\<close>
  (the code's \<^verbatim>\<open>Decimal\<close> arithmetic is exact there), and a deficit
  \<open>actual - desired\<close> that does not exceed the total count.  The requests are, in
  list order: 0 for every backend before position \<open>k\<close> that has instances, and then,
  when \<open>k\<close> is inside the list, the count of backend \<open>k\<close> minus the deficit that is
  left there, after which the walk stops.  The deficit left at \<open>k\<close> is not negative:
  it may be 0, and then backend \<open>k\<close> is asked for its unchanged count.  Every backend
  before \<open>k\<close> has at most the deficit left at its place (it is drained, or has no
  instance and gets no request), backend \<open>k\<close> is the first with more, and when no
  backend has more the counts sum to the deficit exactly.  No request asks for a
  negative count.
\<close>

theorem scale_down_drains_front_to_back:
  assumes cfg: "asg_get_server_config item = Inr (ss, cs, ws)"
    and len: "length ss = length cs" and range: "\<forall>c\<in>set cs. 0 \<le> c \<and> c < 10 ^ 28"
    and d: "st ''desiredCapacity'' = Some (N desired)" and a: "st ''actualCapacity'' = Some (N actual)"
    and nonneg: "0 \<le> desired" and down: "desired < actual" and small: "actual < 10 ^ 28"
    and bound: "actual - desired \<le> sum_list cs"
    and rn: "st ''resourceName'' = Some (S rn)" and vn: "st ''variantName'' = Some (S vn)"
  shows "\<exists>k\<le>length ss.
           update_scaling py st item =
             (map (\<lambda>(s, c). \<lparr>EndpointName = rn @ ''-'' @ s, VariantName = vn,
                              DesiredInstanceCount = 0\<rparr>)
                  (filter (\<lambda>(s, c). 0 < c) (take k (zip ss cs)))
              @ (if k < length ss
                 then [\<lparr>EndpointName = rn @ ''-'' @ ss ! k, VariantName = vn,
                        DesiredInstanceCount =
                          cs ! k - ((actual - desired) - sum_list (take k cs))\<rparr>]
                 else []), None)
           \<and> (\<forall>j<k. cs ! j \<le> (actual - desired) - sum_list (take j cs))
           \<and> 0 \<le> (actual - desired) - sum_list (take k cs)
           \<and> (k < length ss \<longrightarrow> (actual - desired) - sum_list (take k cs) < cs ! k)
           \<and> (k = length ss \<longrightarrow> sum_list cs = actual - desired)
           \<and> (\<forall>r\<in>set (fst (update_scaling py st item)). 0 \<le> DesiredInstanceCount r)"
proof -
  let ?delta = "desired - actual"
  from down have neg: "?delta \<le> 0" by simp
  from nonneg small have ge: "- (10 ^ 28) < ?delta" by simp
  from neg ge have abs: "\<bar>?delta\<bar> < 10 ^ 28" by simp
  from down have run: "update_scaling py st item = scale_down_loop st ss cs 0 ?delta"
    by (simp add: update_scaling_delta [OF cfg d a abs])
  from range have cs0: "\<forall>c\<in>set cs. 0 \<le> c" by simp
  from scale_down_loop_shape [OF rn vn len range neg ge] obtain k where k: "k \<le> length ss"
    and shape: "scale_down_loop st ss cs 0 ?delta =
             (map (\<lambda>(s, c). \<lparr>EndpointName = rn @ ''-'' @ s, VariantName = vn,
                              DesiredInstanceCount = 0\<rparr>)
                  (filter (\<lambda>(s, c). 0 < c) (take k (zip ss cs)))
              @ (if k < length ss
                 then [\<lparr>EndpointName = rn @ ''-'' @ ss ! k, VariantName = vn,
                        DesiredInstanceCount = cs ! k + (?delta + sum_list (take k cs))\<rparr>]
                 else []), None)"
    and before: "\<forall>j<k. cs ! j \<le> - (?delta + sum_list (take j cs))"
    and at: "k < length ss \<longrightarrow> - (?delta + sum_list (take k cs)) < cs ! k"
    and le: "?delta + sum_list (take k cs) \<le> 0"
    by blast
  have eq1: "cs ! k + (?delta + sum_list (take k cs)) = cs ! k - ((actual - desired) - sum_list (take k cs))"
    by simp
  have c1: "update_scaling py st item =
             (map (\<lambda>(s, c). \<lparr>EndpointName = rn @ ''-'' @ s, VariantName = vn,
                              DesiredInstanceCount = 0\<rparr>)
                  (filter (\<lambda>(s, c). 0 < c) (take k (zip ss cs)))
              @ (if k < length ss
                 then [\<lparr>EndpointName = rn @ ''-'' @ ss ! k, VariantName = vn,
                        DesiredInstanceCount =
                          cs ! k - ((actual - desired) - sum_list (take k cs))\<rparr>]
                 else []), None)"
    unfolding run shape eq1 ..
  have c2: "\<forall>j<k. cs ! j \<le> (actual - desired) - sum_list (take j cs)"
    using before by (simp add: algebra_simps)
  have c3: "0 \<le> (actual - desired) - sum_list (take k cs)"
    using le by simp
  have c4: "k < length ss \<longrightarrow> (actual - desired) - sum_list (take k cs) < cs ! k"
    using at by (simp add: algebra_simps)
  have c5: "k = length ss \<longrightarrow> sum_list cs = actual - desired"
    using le bound len by auto
  have c6: "\<forall>r\<in>set (fst (update_scaling py st item)). 0 \<le> DesiredInstanceCount r"
    unfolding c1 using c4 by auto
  from k c1 c2 c3 c4 c5 c6 show ?thesis by blast
qed

theorem scale_down_drains_front_to_back_witness:
  "asg_get_server_config (sample_pool [2, 3, 1] [2, 0, 5]) =
       Inr ([''server1'', ''server2'', ''server3''], [2, 0, 5], [2, 3, 1])
   \<and> list_all (\<lambda>c. 0 \<le> c \<and> c < 10 ^ 28) [2, 0, 5 :: int]
   \<and> (0 :: int) \<le> 3 \<and> (3 :: int) < 7 \<and> (7 :: int) < 10 ^ 28 \<and> (7 :: int) - 3 \<le> sum_list [2, 0, 5]
   \<and> update_scaling sample_python (sample_state ''Pending'' 3 7 0) (sample_pool [2, 3, 1] [2, 0, 5]) =
       ([\<lparr>EndpointName = ''ep-server1'', VariantName = ''AllTraffic'', DesiredInstanceCount = 0\<rparr>,
         \<lparr>EndpointName = ''ep-server3'', VariantName = ''AllTraffic'', DesiredInstanceCount = 3\<rparr>],
        None)
   \<and> (\<exists>k\<le>length [''server1'', ''server2'', ''server3''].
           update_scaling sample_python (sample_state ''Pending'' 3 7 0) (sample_pool [2, 3, 1] [2, 0, 5]) =
             (map (\<lambda>(s, c). \<lparr>EndpointName = ''ep'' @ ''-'' @ s, VariantName = ''AllTraffic'',
                              DesiredInstanceCount = 0\<rparr>)
                  (filter (\<lambda>(s, c). 0 < c)
                     (take k (zip [''server1'', ''server2'', ''server3''] [2, 0, 5 :: int])))
              @ (if k < length [''server1'', ''server2'', ''server3'']
                 then [\<lparr>EndpointName = ''ep'' @ ''-'' @ [''server1'', ''server2'', ''server3''] ! k,
                        VariantName = ''AllTraffic'',
                        DesiredInstanceCount =
                          [2, 0, 5 :: int] ! k - ((7 - 3) - sum_list (take k [2, 0, 5 :: int]))\<rparr>]
                 else []), None)
           \<and> (\<forall>j<k. [2, 0, 5 :: int] ! j \<le> (7 - 3) - sum_list (take j [2, 0, 5 :: int]))
           \<and> 0 \<le> (7 - 3) - sum_list (take k [2, 0, 5 :: int])
           \<and> (k < length [''server1'', ''server2'', ''server3''] \<longrightarrow>
                 (7 - 3) - sum_list (take k [2, 0, 5 :: int]) < [2, 0, 5 :: int] ! k)
           \<and> (k = length [''server1'', ''server2'', ''server3''] \<longrightarrow>
                 sum_list [2, 0, 5 :: int] = 7 - 3)
           \<and> (\<forall>r\<in>set (fst (update_scaling sample_python (sample_state ''Pending'' 3 7 0)
                                  (sample_pool [2, 3, 1] [2, 0, 5]))).
                 0 \<le> DesiredInstanceCount r))"
proof -
  let ?st = "sample_state ''Pending'' 3 7 0"
  have h1: "asg_get_server_config (sample_pool [2, 3, 1] [2, 0, 5]) =
       Inr ([''server1'', ''server2'', ''server3''], [2, 0, 5], [2, 3, 1])"
    by (rule sample_pool_config)
  have h2: "length [''server1'', ''server2'', ''server3''] = length [2, 0, 5 :: int]" by simp
  have h3: "\<forall>c\<in>set [2, 0, 5 :: int]. 0 \<le> c \<and> c < 10 ^ 28"
    and h3': "list_all (\<lambda>c. 0 \<le> c \<and> c < 10 ^ 28) [2, 0, 5 :: int]"
    by simp_all
  have h4: "(0 :: int) \<le> 3" and h5: "(3 :: int) < 7" and h6: "(7 :: int) < 10 ^ 28"
    and h7: "(7 :: int) - 3 \<le> sum_list [2, 0, 5]" by simp_all
  have d: "?st ''desiredCapacity'' = Some (N 3)" and a: "?st ''actualCapacity'' = Some (N 7)"
    and rn: "?st ''resourceName'' = Some (S ''ep'')" and vn: "?st ''variantName'' = Some (S ''AllTraffic'')"
    by (simp_all add: sample_state_fields)
  note concl = scale_down_drains_front_to_back
         [where st = ?st and rn = "''ep''" and vn = "''AllTraffic''" and py = sample_python,
          OF h1 h2 h3 d a h4 h5 h6 h7 rn vn]
  from concl obtain k where k: "k \<le> length [''server1'', ''server2'', ''server3'']"
    and run: "update_scaling sample_python ?st (sample_pool [2, 3, 1] [2, 0, 5]) =
             (map (\<lambda>(s, c). \<lparr>EndpointName = ''ep'' @ ''-'' @ s, VariantName = ''AllTraffic'',
                              DesiredInstanceCount = 0\<rparr>)
                  (filter (\<lambda>(s, c). 0 < c)
                     (take k (zip [''server1'', ''server2'', ''server3''] [2, 0, 5 :: int])))
              @ (if k < length [''server1'', ''server2'', ''server3'']
                 then [\<lparr>EndpointName = ''ep'' @ ''-'' @ [''server1'', ''server2'', ''server3''] ! k,
                        VariantName = ''AllTraffic'',
                        DesiredInstanceCount =
                          [2, 0, 5 :: int] ! k - ((7 - 3) - sum_list (take k [2, 0, 5 :: int]))\<rparr>]
                 else []), None)"
    and before: "\<forall>j<k. [2, 0, 5 :: int] ! j \<le> (7 - 3) - sum_list (take j [2, 0, 5 :: int])"
    and at: "k < length [''server1'', ''server2'', ''server3''] \<longrightarrow>
                 (7 - 3) - sum_list (take k [2, 0, 5 :: int]) < [2, 0, 5 :: int] ! k"
    and full: "k = length [''server1'', ''server2'', ''server3''] \<longrightarrow>
                 sum_list [2, 0, 5 :: int] = 7 - 3"
    by blast
  from k have "k = 0 \<or> k = 1 \<or> k = 2 \<or> k = 3" by simp presburger
  moreover have "k \<noteq> 3"
  proof
    assume "k = 3"
    with full show False by simp
  qed
  moreover have "k \<noteq> 0"
  proof
    assume "k = 0"
    with at show False by simp
  qed
  moreover have "k \<noteq> 1"
  proof
    assume "k = 1"
    with at show False by simp
  qed
  ultimately have "k = 2" by blast
  with run have eval: "update_scaling sample_python ?st (sample_pool [2, 3, 1] [2, 0, 5]) =
       ([\<lparr>EndpointName = ''ep-server1'', VariantName = ''AllTraffic'', DesiredInstanceCount = 0\<rparr>,
         \<lparr>EndpointName = ''ep-server3'', VariantName = ''AllTraffic'', DesiredInstanceCount = 3\<rparr>],
        None)"
    by (simp add: numeral_2_eq_2)
  show ?thesis
    by (intro conjI h1 h3' h4 h5 h6 h7 eval concl)
qed

text \<open>
  The claim as stated fails at the boundary: with counts \<open>[2, 2, 1]\<close> and a deficit of
  2 the first backend is drained, no deficit is left, and the second backend is still
  sent a request, for its unchanged count 2: not a reduction.
\<close>

theorem exact_drain_requests_unchanged_count:
  "update_scaling sample_python (sample_state ''Pending'' 3 5 0) (sample_pool [2, 2, 1] [2, 2, 1]) =
     ([\<lparr>EndpointName = ''ep-server1'', VariantName = ''AllTraffic'', DesiredInstanceCount = 0\<rparr>,
       \<lparr>EndpointName = ''ep-server2'', VariantName = ''AllTraffic'', DesiredInstanceCount = 2\<rparr>],
      None)
   \<and> [2, 2, 1 :: int] ! 1 = 2"
proof -
  let ?st = "sample_state ''Pending'' 3 5 0"
  have d: "?st ''desiredCapacity'' = Some (N 3)" and a: "?st ''actualCapacity'' = Some (N 5)"
    and rn: "?st ''resourceName'' = Some (S ''ep'')" and vn: "?st ''variantName'' = Some (S ''AllTraffic'')"
    by (simp_all add: sample_state_fields)
  have abs: "\<bar>(3 :: int) - 5\<bar> < 10 ^ 28" by simp
  have r: "decimal_result (- 2) = Inr (- 2)" "decimal_result 0 = Inr 0" "decimal_result 2 = Inr 2"
    by (simp_all add: decimal_result_small)
  show ?thesis
    by (simp add: update_scaling_delta [where st = ?st, OF sample_pool_config d a abs]
          endpoint_args_ok [OF rn vn] r update_endpoint_def)
qed

text \<open>
  Claim C2, as the code has it.  Scale up by \<open>delta = desired - actual > 0\<close>, for
  capacities and counts that are not negative and below \<open>10^27\<close> (the code's
  \<^verbatim>\<open>Decimal\<close> arithmetic is exact there), and counts and weights aligned with the
  servers.  When every count is 0 and some backend has weight 1, exactly one request
  is sent: \<open>delta\<close> instances on the first backend whose weight is 1.  When every
  count is 0 and no backend has weight 1, no request is sent and the redistribution
  ends with \<^verbatim>\<open>ValueError\<close>.  When some count is not 0, one request per backend is
  sent in list order, each for that backend's count plus \<open>delta\<close>.
\<close>

theorem scale_up_requests:
  assumes cfg: "asg_get_server_config item = Inr (ss, cs, ws)"
    and len: "length ss = length cs" and lenw: "length ws = length ss"
    and range: "\<forall>c\<in>set cs. 0 \<le> c \<and> c < 10 ^ 27"
    and d: "st ''desiredCapacity'' = Some (N desired)" and a: "st ''actualCapacity'' = Some (N actual)"
    and nonneg: "0 \<le> actual" and up: "actual < desired" and small: "desired < 10 ^ 27"
    and rn: "st ''resourceName'' = Some (S rn)" and vn: "st ''variantName'' = Some (S vn)"
  shows "((\<forall>c\<in>set cs. c = 0) \<and> 1 \<in> set ws \<longrightarrow>
            (\<exists>k<length ss. ws ! k = 1 \<and> (\<forall>j<k. ws ! j \<noteq> 1) \<and>
               update_scaling py st item =
                 ([\<lparr>EndpointName = rn @ ''-'' @ ss ! k, VariantName = vn,
                    DesiredInstanceCount = desired - actual\<rparr>], None)))
       \<and> ((\<forall>c\<in>set cs. c = 0) \<and> 1 \<notin> set ws \<longrightarrow>
            update_scaling py st item = ([], Some ValueError))
       \<and> ((\<exists>c\<in>set cs. c \<noteq> 0) \<longrightarrow>
            update_scaling py st item =
              (map (\<lambda>(s, c). \<lparr>EndpointName = rn @ ''-'' @ s, VariantName = vn,
                               DesiredInstanceCount = c + (desired - actual)\<rparr>) (zip ss cs),
               None))"
proof (intro conjI impI)
  from range have cs0: "\<forall>c\<in>set cs. 0 \<le> c" by simp
  from nonneg up small have abs: "\<bar>desired - actual\<bar> < 10 ^ 28" by simp
  note run = update_scaling_delta [OF cfg d a abs]
  {
    assume h: "(\<forall>c\<in>set cs. c = 0) \<and> 1 \<in> set ws"
    then have zero: "sum_list cs = 0" using nonneg_sum_zero [OF cs0] by simp
    from h list_index_first [of 1 ws] obtain k where k: "k < length ws" "list_index ws 1 = Some k"
      "ws ! k = 1" "\<forall>j<k. ws ! j \<noteq> 1" by blast
    with lenw have "k < length ss" by simp
    moreover have "update_scaling py st item =
        ([\<lparr>EndpointName = rn @ ''-'' @ ss ! k, VariantName = vn,
           DesiredInstanceCount = desired - actual\<rparr>], None)"
      using up zero k lenw rn vn by (simp add: run get_str_def update_endpoint_def)
    ultimately show "\<exists>k<length ss. ws ! k = 1 \<and> (\<forall>j<k. ws ! j \<noteq> 1) \<and>
               update_scaling py st item =
                 ([\<lparr>EndpointName = rn @ ''-'' @ ss ! k, VariantName = vn,
                    DesiredInstanceCount = desired - actual\<rparr>], None)"
      using k by blast
  }
  {
    assume h: "(\<forall>c\<in>set cs. c = 0) \<and> 1 \<notin> set ws"
    then have zero: "sum_list cs = 0" using nonneg_sum_zero [OF cs0] by simp
    from h have "list_index ws 1 = None" by (simp add: list_index_None)
    with up zero rn show "update_scaling py st item = ([], Some ValueError)"
      by (simp add: run get_str_def)
  }
  {
    assume "\<exists>c\<in>set cs. c \<noteq> 0"
    then have nz: "sum_list cs \<noteq> 0" using nonneg_sum_zero [OF cs0] by blast
    have "\<forall>c\<in>set cs. \<bar>c + (desired - actual)\<bar> < 10 ^ 28"
    proof
      fix c assume "c \<in> set cs"
      with range have "0 \<le> c" "c < 10 ^ 27" by simp_all
      with nonneg up small show "\<bar>c + (desired - actual)\<bar> < 10 ^ 28" by simp
    qed
    from scale_up_loop_all [OF rn vn len this] nz up
    show "update_scaling py st item =
              (map (\<lambda>(s, c). \<lparr>EndpointName = rn @ ''-'' @ s, VariantName = vn,
                               DesiredInstanceCount = c + (desired - actual)\<rparr>) (zip ss cs),
               None)"
      by (simp add: run)
  }
qed

theorem scale_up_requests_witness:
  "list_all (\<lambda>c. c = 0) [0, 0, 0 :: int] \<and> (1 :: int) \<in> set [0, 1, 0]
   \<and> (0 :: int) \<le> 0 \<and> (0 :: int) < 2 \<and> (2 :: int) < 10 ^ 27
   \<and> (\<exists>k<length [''server1'', ''server2'', ''server3''].
         [0, 1, 0 :: int] ! k = 1 \<and> (\<forall>j<k. [0, 1, 0 :: int] ! j \<noteq> 1) \<and>
         update_scaling sample_python (sample_state ''Pending'' 2 0 0) (sample_pool [0, 1, 0] [0, 0, 0]) =
           ([\<lparr>EndpointName = ''ep'' @ ''-'' @ [''server1'', ''server2'', ''server3''] ! k,
              VariantName = ''AllTraffic'', DesiredInstanceCount = 2 - 0\<rparr>], None))
   \<and> (1 :: int) \<notin> set [5, 3, 2]
   \<and> update_scaling sample_python (sample_state ''Pending'' 2 0 0) (sample_pool [5, 3, 2] [0, 0, 0]) =
        ([], Some ValueError)
   \<and> list_ex (\<lambda>c. c \<noteq> 0) [1, 0, 2 :: int] \<and> (0 :: int) \<le> 3 \<and> (3 :: int) < 5 \<and> (5 :: int) < 10 ^ 27
   \<and> update_scaling sample_python (sample_state ''Pending'' 5 3 0) (sample_pool [1, 0, 2] [1, 0, 2]) =
        (map (\<lambda>(s, c). \<lparr>EndpointName = ''ep'' @ ''-'' @ s, VariantName = ''AllTraffic'',
                         DesiredInstanceCount = c + (5 - 3)\<rparr>)
           (zip [''server1'', ''server2'', ''server3''] [1, 0, 2]), None)
   \<and> update_scaling sample_python (sample_state ''Pending'' 5 3 0) (sample_pool [1, 0, 2] [1, 0, 2]) =
        ([\<lparr>EndpointName = ''ep-server1'', VariantName = ''AllTraffic'', DesiredInstanceCount = 3\<rparr>,
          \<lparr>EndpointName = ''ep-server2'', VariantName = ''AllTraffic'', DesiredInstanceCount = 2\<rparr>,
          \<lparr>EndpointName = ''ep-server3'', VariantName = ''AllTraffic'', DesiredInstanceCount = 4\<rparr>],
         None)"
proof -
  let ?st0 = "sample_state ''Pending'' 2 0 0" and ?st1 = "sample_state ''Pending'' 5 3 0"
  have len: "length [''server1'', ''server2'', ''server3''] = length [0, 0, 0 :: int]"
    and len': "length [''server1'', ''server2'', ''server3''] = length [1, 0, 2 :: int]"
    and lw: "length [0, 1, 0 :: int] = length [''server1'', ''server2'', ''server3'']"
    and lw': "length [5, 3, 2 :: int] = length [''server1'', ''server2'', ''server3'']"
    and lw'': "length [1, 0, 2 :: int] = length [''server1'', ''server2'', ''server3'']"
    by simp_all
  have z: "\<forall>c\<in>set [0, 0, 0 :: int]. 0 \<le> c \<and> c < 10 ^ 27"
    and z': "\<forall>c\<in>set [1, 0, 2 :: int]. 0 \<le> c \<and> c < 10 ^ 27" by simp_all
  have b0: "(0 :: int) \<le> 0" "(0 :: int) < 2" "(2 :: int) < 10 ^ 27"
    and b1: "(0 :: int) \<le> 3" "(3 :: int) < 5" "(5 :: int) < 10 ^ 27" by simp_all
  have f0: "?st0 ''desiredCapacity'' = Some (N 2)" "?st0 ''actualCapacity'' = Some (N 0)"
    "?st0 ''resourceName'' = Some (S ''ep'')" "?st0 ''variantName'' = Some (S ''AllTraffic'')"
    by (simp_all add: sample_state_fields)
  have f1: "?st1 ''desiredCapacity'' = Some (N 5)" "?st1 ''actualCapacity'' = Some (N 3)"
    "?st1 ''resourceName'' = Some (S ''ep'')" "?st1 ''variantName'' = Some (S ''AllTraffic'')"
    by (simp_all add: sample_state_fields)
  note t0 = scale_up_requests [where st = ?st0 and rn = "''ep''" and vn = "''AllTraffic''"
      and py = sample_python,
      OF sample_pool_config len lw z f0(1) f0(2) b0(1) b0(2) b0(3) f0(3) f0(4)]
  note t0' = scale_up_requests [where st = ?st0 and rn = "''ep''" and vn = "''AllTraffic''"
      and py = sample_python,
      OF sample_pool_config len lw' z f0(1) f0(2) b0(1) b0(2) b0(3) f0(3) f0(4)]
  note t1 = scale_up_requests [where st = ?st1 and rn = "''ep''" and vn = "''AllTraffic''"
      and py = sample_python,
      OF sample_pool_config len' lw'' z' f1(1) f1(2) b1(1) b1(2) b1(3) f1(3) f1(4)]
  have a0: "list_all (\<lambda>c. c = 0) [0, 0, 0 :: int]" and a1: "(1 :: int) \<in> set [0, 1, 0]"
    and a1': "(1 :: int) \<notin> set [5, 3, 2]"
    and a2: "list_ex (\<lambda>c. c \<noteq> 0) [1, 0, 2 :: int]" by simp_all
  have c0: "\<exists>k<length [''server1'', ''server2'', ''server3''].
         [0, 1, 0 :: int] ! k = 1 \<and> (\<forall>j<k. [0, 1, 0 :: int] ! j \<noteq> 1) \<and>
         update_scaling sample_python ?st0 (sample_pool [0, 1, 0] [0, 0, 0]) =
           ([\<lparr>EndpointName = ''ep'' @ ''-'' @ [''server1'', ''server2'', ''server3''] ! k,
              VariantName = ''AllTraffic'', DesiredInstanceCount = 2 - 0\<rparr>], None)"
    using t0 by simp
  have c0': "update_scaling sample_python ?st0 (sample_pool [5, 3, 2] [0, 0, 0]) = ([], Some ValueError)"
    using t0' by simp
  have c1: "update_scaling sample_python ?st1 (sample_pool [1, 0, 2] [1, 0, 2]) =
        (map (\<lambda>(s, c). \<lparr>EndpointName = ''ep'' @ ''-'' @ s, VariantName = ''AllTraffic'',
                         DesiredInstanceCount = c + (5 - 3)\<rparr>)
           (zip [''server1'', ''server2'', ''server3''] [1, 0, 2]), None)"
    using t1 by simp
  have r1: "update_scaling sample_python ?st1 (sample_pool [1, 0, 2] [1, 0, 2]) =
        ([\<lparr>EndpointName = ''ep-server1'', VariantName = ''AllTraffic'', DesiredInstanceCount = 3\<rparr>,
          \<lparr>EndpointName = ''ep-server2'', VariantName = ''AllTraffic'', DesiredInstanceCount = 2\<rparr>,
          \<lparr>EndpointName = ''ep-server3'', VariantName = ''AllTraffic'', DesiredInstanceCount = 4\<rparr>],
         None)"
    using c1 by simp
  show ?thesis
    by (intro conjI a0 a1 b0 c0 a1' c0' a2 b1 c1 r1)
qed

text \<open>
  The claim as stated fails where no backend has weight 1: with every count 0 and
  the weights \<open>[5, 3, 2]\<close>, a scale up by 2 sends no request and ends with
  \<^verbatim>\<open>ValueError\<close>.
\<close>

theorem scale_up_from_zero_without_unit_weight:
  "update_scaling sample_python (sample_state ''Pending'' 2 0 0) (sample_pool [5, 3, 2] [0, 0, 0]) =
     ([], Some ValueError)"
proof -
  let ?st = "sample_state ''Pending'' 2 0 0"
  have d: "?st ''desiredCapacity'' = Some (N 2)" and a: "?st ''actualCapacity'' = Some (N 0)"
    and rn: "?st ''resourceName'' = Some (S ''ep'')"
    by (simp_all add: sample_state_fields)
  have abs: "\<bar>(2 :: int) - 0\<bar> < 10 ^ 28" by simp
  show ?thesis
    by (simp add: update_scaling_delta [where st = ?st, OF sample_pool_config d a abs] get_str_def rn)
qed

section \<open>Properties of the request handler\<close>

lemma respond_requests: "sm_requests (respond py flag p dim st rs now_ms) = rs"
  by (simp add: respond_def Let_def split: sum.splits)

lemma respond_ok:
  assumes "p ''desiredCapacity'' \<noteq> None" and "p ''actualCapacity'' \<noteq> None"
    and "p ''scalingStatus'' \<noteq> None"
    and "st ''scalingStatus'' = Some sv" and "(\<exists>s. sv = S s) \<or> flag"
    and "st ''desiredCapacity'' = Some (N d)" and "st ''actualCapacity'' = Some (N a)"
    and "st ''dimensionName'' = Some (S dn)" and "st ''resourceName'' = Some (S rn)"
    and "st ''scalableTargetDimensionId'' = Some (S dim)" and "st ''version'' = Some (S v)"
  shows "respond py flag p dimId st rs now_ms =
     \<lparr>statusCode = 200, sm_requests = rs,
      written = Some ((if sv \<noteq> S ''Failed'' then st(''failureResaon'' \<mapsto> S '''') else st)
                       (''id'' \<mapsto> dimId, ''lastModified'' \<mapsto> N now_ms))\<rparr>"
proof (cases "sv = S ''Failed''")
  case True
  with assms show ?thesis
    by (simp add: respond_def get_item_def has_keys_def is_str_def float_returns_def)
next
  case False
  with assms show ?thesis
    by (auto simp: respond_def get_item_def has_keys_def is_str_def float_returns_def)
qed






lemma handler_get:
  assumes "st ''scalableTargetDimensionId'' = Some dim"
  shows "lambda_handler py \<lparr>httpMethod = Some ''GET'', body = NoBody\<rparr> (Some st) item now_ms =
           (case reconcile py st item now_ms of
              (st1, rs, Some e) \<Rightarrow> \<lparr>statusCode = 500, sm_requests = rs, written = None\<rparr>
            | (st1, rs, None) \<Rightarrow> respond py False st dim st1 rs now_ms)"
  using assms by (simp add: lambda_handler_def get_item_def)







lemma reconcile_busy:
  assumes d: "st ''desiredCapacity'' = Some (N d)" and a: "st ''actualCapacity'' = Some (N a)"
    and status: "st ''scalingStatus'' = Some (S status)" and lm: "st ''lastModified'' = Some (N lm)"
    and busy: "status = ''Pending'' \<or> status = ''InProgress''" and nonneg: "0 \<le> d"
  shows "reconcile py st item now_ms =
     (if lm < now_ms - 1500000 then
        (if d \<noteq> a then
           st(''scalingStatus'' \<mapsto> S ''Failed'',
              ''failureResaon'' \<mapsto>
                S ''Scaling activity stayed in Pending or InProgress for more than 25 minutes'')
         else st(''scalingStatus'' \<mapsto> S ''Successful''))
      else st, [], None)"
proof -
  from status busy have r: "restart_finished py st item = (st, [], None)"
    by (auto simp: restart_finished_def get_item_def)
  from d a status lm busy have t: "time_out st now_ms =
     Inr (if lm < now_ms - 1500000 then
        (if d \<noteq> a then
           st(''scalingStatus'' \<mapsto> S ''Failed'',
              ''failureResaon'' \<mapsto>
                S ''Scaling activity stayed in Pending or InProgress for more than 25 minutes'')
         else st(''scalingStatus'' \<mapsto> S ''Successful''))
      else st)"
    by (auto simp: time_out_def get_item_def get_num_def)
  from d nonneg show ?thesis
    by (simp add: reconcile_def get_num_def r t)
qed

lemma staleness_transitions:
  assumes dim: "st ''scalableTargetDimensionId'' = Some (S dim)" and dn: "st ''dimensionName'' = Some (S dn)"
    and rn: "st ''resourceName'' = Some (S rn)" and v: "st ''version'' = Some (S v)"
    and d: "st ''desiredCapacity'' = Some (N d)" and a: "st ''actualCapacity'' = Some (N a)"
    and status: "st ''scalingStatus'' = Some (S status)" and lm: "st ''lastModified'' = Some (N lm)"
    and busy: "status = ''Pending'' \<or> status = ''InProgress''" and nonneg: "0 \<le> d"
  shows "lambda_handler py \<lparr>httpMethod = Some ''GET'', body = NoBody\<rparr> (Some st) item now_ms =
     \<lparr>statusCode = 200, sm_requests = [],
      written = Some
        (if lm < now_ms - 1500000 then
           (if d \<noteq> a then
              st(''scalingStatus'' \<mapsto> S ''Failed'',
                 ''failureResaon'' \<mapsto>
                   S ''Scaling activity stayed in Pending or InProgress for more than 25 minutes'',
                 ''id'' \<mapsto> S dim, ''lastModified'' \<mapsto> N now_ms)
            else st(''scalingStatus'' \<mapsto> S ''Successful'', ''failureResaon'' \<mapsto> S '''',
                    ''id'' \<mapsto> S dim, ''lastModified'' \<mapsto> N now_ms))
         else st(''failureResaon'' \<mapsto> S '''', ''id'' \<mapsto> S dim, ''lastModified'' \<mapsto> N now_ms))\<rparr>"
proof -
  let ?r = "lambda_handler py \<lparr>httpMethod = Some ''GET'', body = NoBody\<rparr> (Some st) item now_ms"
  note run = handler_get [of st "S dim" py item now_ms, OF dim]
    reconcile_busy [of st d a status lm py item now_ms, OF d a status lm busy nonneg]
  let ?reason = "S ''Scaling activity stayed in Pending or InProgress for more than 25 minutes''"
  have p: "st ''desiredCapacity'' \<noteq> None" "st ''actualCapacity'' \<noteq> None" "st ''scalingStatus'' \<noteq> None"
    using d a status by simp_all
  consider (failed) "lm < now_ms - 1500000" "d \<noteq> a"
    | (succeeded) "lm < now_ms - 1500000" "d = a"
    | (fresh) "\<not> lm < now_ms - 1500000" by blast
  then show ?thesis
  proof cases
    case failed
    let ?st1 = "st(''scalingStatus'' \<mapsto> S ''Failed'', ''failureResaon'' \<mapsto> ?reason)"
    from failed have "?r = respond py False st (S dim) ?st1 [] now_ms" by (simp add: run)
    also have "\<dots> = \<lparr>statusCode = 200, sm_requests = [],
        written = Some (?st1(''id'' \<mapsto> S dim, ''lastModified'' \<mapsto> N now_ms))\<rparr>"
      using respond_ok [where p = st and st = ?st1 and sv = "S ''Failed''" and d = d and a = a
          and dn = dn and rn = rn and dim = dim and v = v and dimId = "S dim" and rs = "[]"
          and now_ms = now_ms and py = py and flag = False, OF p]
        d a dn rn dim v by simp
    finally show ?thesis using failed by simp
  next
    case succeeded
    let ?st1 = "st(''scalingStatus'' \<mapsto> S ''Successful'')"
    from succeeded have "?r = respond py False st (S dim) ?st1 [] now_ms" by (simp add: run)
    also have "\<dots> = \<lparr>statusCode = 200, sm_requests = [],
        written = Some (?st1(''failureResaon'' \<mapsto> S '''', ''id'' \<mapsto> S dim,
                             ''lastModified'' \<mapsto> N now_ms))\<rparr>"
      using respond_ok [where p = st and st = ?st1 and sv = "S ''Successful''" and d = d and a = a
          and dn = dn and rn = rn and dim = dim and v = v and dimId = "S dim" and rs = "[]"
          and now_ms = now_ms and py = py and flag = False, OF p]
        d a dn rn dim v by simp
    finally show ?thesis using succeeded by simp
  next
    case fresh
    then have "?r = respond py False st (S dim) st [] now_ms" by (simp add: run)
    also have "\<dots> = \<lparr>statusCode = 200, sm_requests = [],
        written = Some (st(''failureResaon'' \<mapsto> S '''', ''id'' \<mapsto> S dim,
                           ''lastModified'' \<mapsto> N now_ms))\<rparr>"
      using respond_ok [where p = st and st = st and sv = "S status" and d = d and a = a
          and dn = dn and rn = rn and dim = dim and v = v and dimId = "S dim" and rs = "[]"
          and now_ms = now_ms and py = py and flag = False, OF p]
        d a status dn rn dim v busy by auto
    finally show ?thesis using fresh by simp
  qed
qed

text \<open>
  Claim C5, evaluated at a record that has been \<^verbatim>\<open>Pending\<close> for 26 minutes with
  desired capacity 4 and actual capacity 2: the poll answers 200 and writes the status
  \<^verbatim>\<open>Failed\<close>; the reason is stored under the key \<^verbatim>\<open>failureResaon\<close>, and the
  record's \<^verbatim>\<open>failureReason\<close> is the empty string it was before.
\<close>

theorem stale_reason_stored_under_other_key:
  "\<exists>st'. lambda_handler py \<lparr>httpMethod = Some ''GET'', body = NoBody\<rparr>
            (Some (sample_state ''Pending'' 4 2 0)) None 1560000 =
           \<lparr>statusCode = 200, sm_requests = [], written = Some st'\<rparr>
     \<and> st' ''scalingStatus'' = Some (S ''Failed'')
     \<and> st' ''failureReason'' = Some (S '''')
     \<and> st' ''failureResaon'' =
          Some (S ''Scaling activity stayed in Pending or InProgress for more than 25 minutes'')"
  using staleness_transitions [of "sample_state ''Pending'' 4 2 0" "''dim-1''" "''DesiredInstanceCount''" "''ep''" "''1''"
      4 2 "''Pending''" 0 py None 1560000]
  by (simp add: sample_state_fields)

section \<open>Properties of the status events\<close>

lemma fold_gcd_is_Gcd: "fold gcd cs (0::int) = Gcd (set cs)"
  by (simp add: Gcd_set_eq_fold)

lemma gcd_value_dvd: "c \<in> set cs \<Longrightarrow> fold gcd cs (0::int) dvd c"
  by (simp add: fold_gcd_is_Gcd)



lemma reweigh_loop_exact:
  assumes "length ws = length cs" and "g \<noteq> 0" and "\<forall>c\<in>set cs. g dvd c \<and> \<bar>c\<bar> < 2 ^ 53"
  shows "reweigh_loop ws cs g = Inr (map (\<lambda>c. c div g) cs)"
  using assms
proof (induction ws arbitrary: cs)
  case Nil
  then show ?case by simp
next
  case (Cons w ws)
  then obtain c cs' where cs: "cs = c # cs'" and len: "length ws = length cs'"
    by (cases cs) auto
  from Cons.prems(3) cs have c: "g dvd c" "\<bar>c\<bar> < 2 ^ 53"
    and rest: "\<forall>c\<in>set cs'. g dvd c \<and> \<bar>c\<bar> < 2 ^ 53" by simp_all
  from int_truediv_exact [OF c(1) Cons.prems(2) c(2)] Cons.IH [OF len Cons.prems(2) rest]
  show ?case by (simp add: cs)
qed

lemma rebalance_aligned:
  assumes "length ws = length cs" and "ws \<noteq> []" and "\<forall>c\<in>set cs. \<bar>c\<bar> < 2 ^ 53"
  shows "rebalance cs ws =
     Inr (let g = Gcd (set cs);
              ws1 = (if g \<noteq> 0 then map (\<lambda>c. c div g) cs else ws)
          in if sum_list ws1 = 0 then ws1[0 := 1] else ws1)"
proof (cases "fold gcd cs 0 = 0")
  case True
  with assms(2) show ?thesis
    by (cases ws) (simp_all add: rebalance_def fold_gcd_is_Gcd [symmetric])
next
  case False
  from assms have "cs \<noteq> []" by auto
  then obtain c rest where cs: "cs = c # rest" by (cases cs) auto
  have "map (\<lambda>c. c div fold gcd cs 0) cs = (c div fold gcd cs 0) # map (\<lambda>c. c div fold gcd cs 0) rest"
    by (simp add: cs)
  moreover have "\<forall>c\<in>set cs. fold gcd cs 0 dvd c \<and> \<bar>c\<bar> < 2 ^ 53"
    using assms(3) gcd_value_dvd by blast
  from reweigh_loop_exact [OF assms(1) False this]
  have "reweigh_loop ws cs (fold gcd cs 0) = Inr (map (\<lambda>c. c div fold gcd cs 0) cs)" .
  ultimately show ?thesis using False
    by (simp add: rebalance_def fold_gcd_is_Gcd [symmetric] Let_def)
qed



lemma handle_in_service:
  assumes "st ''resourceName'' = Some (S rn)" and "contains name rn"
  shows "handle_endpoint_status_change
           \<lparr>endpoint_name = Some name, endpoint_status = Some ''IN_SERVICE'', reported_count = reported\<rparr>
           (Some \<lparr>servers = Some ss, weights = Some ws, current_instance_count = Some cs\<rparr>)
           (Some st) dimensionId now_ms =
         in_service name reported ss ws cs st dimensionId now_ms"
  using assms by (simp add: handle_endpoint_status_change_def)

lemma in_service_converges:
  assumes "split_on CHR ''-'' name = p # srv # rest" and "list_index ss srv = Some i"
    and "i < length cs" and "st ''desiredCapacity'' = Some (N (sum_list (cs[i := r])))"
  shows "in_service name (Some r) ss ws cs st dimensionId now_ms =
     (case rebalance (cs[i := r]) ws of
        Inl e \<Rightarrow> event_failed
      | Inr ws1 \<Rightarrow>
          \<lparr>ev_statusCode = 200, ev_requests = [],
           written_config =
             Some \<lparr>servers = Some ss, weights = Some ws1, current_instance_count = Some (cs[i := r])\<rparr>,
           written_state =
             Some (st(''actualCapacity'' \<mapsto> N (sum_list (cs[i := r])),
                      ''scalingStatus'' \<mapsto> S ''Successful'',
                      ''id'' \<mapsto> S dimensionId, ''lastModified'' \<mapsto> N now_ms))\<rparr>)"
  using assms
  by (cases "rebalance (cs[i := r]) ws") (simp_all add: in_service_def get_num_def write_state_def Let_def)

lemma convergence_run:
  assumes rn: "st ''resourceName'' = Some (S rn)" and sub: "contains name rn"
    and srv: "split_on CHR ''-'' name = p # srv # rest" and idx: "list_index ss srv = Some i"
    and i: "i < length cs"
    and desired: "st ''desiredCapacity'' = Some (N (sum_list (cs[i := r])))"
    and reb: "rebalance (cs[i := r]) ws = Inr ws1"
  shows "handle_endpoint_status_change
           \<lparr>endpoint_name = Some name, endpoint_status = Some ''IN_SERVICE'', reported_count = Some r\<rparr>
           (Some \<lparr>servers = Some ss, weights = Some ws, current_instance_count = Some cs\<rparr>)
           (Some st) dimensionId now_ms =
         \<lparr>ev_statusCode = 200, ev_requests = [],
          written_config =
            Some \<lparr>servers = Some ss, weights = Some ws1, current_instance_count = Some (cs[i := r])\<rparr>,
          written_state =
            Some (st(''actualCapacity'' \<mapsto> N (sum_list (cs[i := r])),
                     ''scalingStatus'' \<mapsto> S ''Successful'',
                     ''id'' \<mapsto> S dimensionId, ''lastModified'' \<mapsto> N now_ms))\<rparr>"
  using reb
  by (simp add: handle_in_service [of st rn name, OF rn sub]
        in_service_converges [of name p srv rest ss i cs st r, OF srv idx i desired])

text \<open>
  Claim C4, as the code has it.  An \<^verbatim>\<open>IN_SERVICE\<close> event for backend \<open>i\<close> that
  reports \<open>r\<close> instances and brings the sum of the counts to the desired capacity
  is answered with 200, sends no request and writes the status \<^verbatim>\<open>Successful\<close>.
  With \<open>g\<close> the greatest common divisor of the updated counts, the written weights
  are the counts divided by \<open>g\<close> when \<open>g \<noteq> 0\<close>, and the stored weights when
  \<open>g = 0\<close> (all counts are 0); after that the first weight is set to 1 when the
  weights sum to 0.  Weights and counts are aligned, there is a weight, and every
  updated count is below \<open>2^53\<close> in magnitude: the code divides through a
  \<^verbatim>\<open>float\<close>, which is exact there.
\<close>

theorem convergence_rebalance:
  assumes aligned: "length ws = length cs" and ne: "ws \<noteq> []"
    and rn: "st ''resourceName'' = Some (S rn)" and sub: "contains name rn"
    and srv: "split_on CHR ''-'' name = p # srv # rest" and idx: "list_index ss srv = Some i"
    and i: "i < length cs"
    and desired: "st ''desiredCapacity'' = Some (N (sum_list (cs[i := r])))"
    and small: "\<forall>c\<in>set (cs[i := r]). \<bar>c\<bar> < 2 ^ 53"
  shows "handle_endpoint_status_change
           \<lparr>endpoint_name = Some name, endpoint_status = Some ''IN_SERVICE'', reported_count = Some r\<rparr>
           (Some \<lparr>servers = Some ss, weights = Some ws, current_instance_count = Some cs\<rparr>)
           (Some st) dimensionId now_ms =
         \<lparr>ev_statusCode = 200, ev_requests = [],
          written_config =
            Some \<lparr>servers = Some ss,
                  weights = Some
                    (let g = Gcd (set (cs[i := r]));
                         ws1 = (if g \<noteq> 0 then map (\<lambda>c. c div g) (cs[i := r]) else ws)
                     in if sum_list ws1 = 0 then ws1[0 := 1] else ws1),
                  current_instance_count = Some (cs[i := r])\<rparr>,
          written_state =
            Some (st(''actualCapacity'' \<mapsto> N (sum_list (cs[i := r])),
                     ''scalingStatus'' \<mapsto> S ''Successful'',
                     ''id'' \<mapsto> S dimensionId, ''lastModified'' \<mapsto> N now_ms))\<rparr>"
proof -
  from aligned have "length ws = length (cs[i := r])" by simp
  from rebalance_aligned [OF this ne small]
  show ?thesis
    by (rule convergence_run [of st rn name p srv rest ss i cs r ws, OF rn sub srv idx i desired])
qed






lemma sample_event:
  "contains ''ep-server3'' ''ep''"
  "split_on CHR ''-'' ''ep-server3'' = ''ep'' # ''server3'' # []"
  "list_index [''server1'', ''server2'', ''server3''] ''server3'' = Some 2"
  "contains ''ep-server1'' ''ep''"
  "split_on CHR ''-'' ''ep-server1'' = ''ep'' # ''server1'' # []"
  "list_index [''server1'', ''server2'', ''server3''] ''server1'' = Some 0"
  by simp_all

lemma sample_gcd: "Gcd (set [6, 9, 3 :: int]) = 3"
  by code_simp

lemma sample_rebalance:
  "rebalance [6, 9, 3] [5, 3, 2] = Inr [2, 3, 1]"
  "rebalance [0, 0, 0] [5, 3, 2] = Inr [5, 3, 2]"
proof -
  have "\<forall>c\<in>set [6, 9, 3 :: int]. \<bar>c\<bar> < 2 ^ 53" by simp
  from rebalance_aligned [of "[5, 3, 2]" "[6, 9, 3]", OF _ _ this]
  show "rebalance [6, 9, 3] [5, 3, 2] = Inr [2, 3, 1]"
    by (simp add: sample_gcd)
  show "rebalance [0, 0, 0] [5, 3, 2] = Inr [5, 3, 2]"
    by (simp add: rebalance_def)
qed

text \<open>Counts \<open>[6, 9, 2]\<close>, the third backend reporting 3, desired capacity 18, stored
  weights \<open>[5, 3, 2]\<close>: the written weights are \<open>[2, 3, 1]\<close>.\<close>

theorem convergence_rebalance_witness:
  "length [5, 3, 2 :: int] = length [6, 9, 2 :: int]
   \<and> contains ''ep-server3'' ''ep''
   \<and> split_on CHR ''-'' ''ep-server3'' = ''ep'' # ''server3'' # []
   \<and> list_index [''server1'', ''server2'', ''server3''] ''server3'' = Some 2
   \<and> [6, 9, 2 :: int][2 := 3] = [6, 9, 3]
   \<and> list_all (\<lambda>c. \<bar>c\<bar> < 2 ^ 53) [6, 9, 3 :: int]
   \<and> handle_endpoint_status_change
        \<lparr>endpoint_name = Some ''ep-server3'', endpoint_status = Some ''IN_SERVICE'',
         reported_count = Some 3\<rparr>
        (Some \<lparr>servers = Some [''server1'', ''server2'', ''server3''], weights = Some [5, 3, 2],
               current_instance_count = Some [6, 9, 2]\<rparr>)
        (Some (sample_state ''InProgress'' 18 17 1000)) ''dim-1'' 2000 =
      \<lparr>ev_statusCode = 200, ev_requests = [],
       written_config =
         Some \<lparr>servers = Some [''server1'', ''server2'', ''server3''], weights = Some [2, 3, 1],
               current_instance_count = Some [6, 9, 3]\<rparr>,
       written_state =
         Some ((sample_state ''InProgress'' 18 17 1000)
                 (''actualCapacity'' \<mapsto> N 18, ''scalingStatus'' \<mapsto> S ''Successful'',
                  ''id'' \<mapsto> S ''dim-1'', ''lastModified'' \<mapsto> N 2000))\<rparr>"
proof -
  let ?st = "sample_state ''InProgress'' 18 17 1000"
  have aligned: "length [5, 3, 2 :: int] = length [6, 9, 2 :: int]" and ne: "[5, 3, 2 :: int] \<noteq> []"
    and i: "2 < length [6, 9, 2 :: int]" and upd: "[6, 9, 2 :: int][2 := 3] = [6, 9, 3]"
    and small: "\<forall>c\<in>set ([6, 9, 2 :: int][2 := 3]). \<bar>c\<bar> < 2 ^ 53"
    and small': "list_all (\<lambda>c. \<bar>c\<bar> < 2 ^ 53) [6, 9, 3 :: int]"
    by simp_all
  have rn: "?st ''resourceName'' = Some (S ''ep'')"
    and desired: "?st ''desiredCapacity'' = Some (N (sum_list ([6, 9, 2][2 := 3])))"
    by (simp_all add: sample_state_fields)
  from convergence_rebalance [where st = ?st and rn = "''ep''" and ws = "[5, 3, 2]" and r = 3
        and dimensionId = "''dim-1''" and now_ms = 2000,
        OF aligned ne rn sample_event(1) sample_event(2) sample_event(3) i desired small]
  have "handle_endpoint_status_change
        \<lparr>endpoint_name = Some ''ep-server3'', endpoint_status = Some ''IN_SERVICE'',
         reported_count = Some 3\<rparr>
        (Some \<lparr>servers = Some [''server1'', ''server2'', ''server3''], weights = Some [5, 3, 2],
               current_instance_count = Some [6, 9, 2]\<rparr>)
        (Some ?st) ''dim-1'' 2000 =
      \<lparr>ev_statusCode = 200, ev_requests = [],
       written_config =
         Some \<lparr>servers = Some [''server1'', ''server2'', ''server3''], weights = Some [2, 3, 1],
               current_instance_count = Some [6, 9, 3]\<rparr>,
       written_state =
         Some (?st(''actualCapacity'' \<mapsto> N 18, ''scalingStatus'' \<mapsto> S ''Successful'',
                  ''id'' \<mapsto> S ''dim-1'', ''lastModified'' \<mapsto> N 2000))\<rparr>"
    by (simp add: sample_gcd)
  with aligned upd small' show ?thesis
    by (intro conjI sample_event(1) sample_event(2) sample_event(3))
qed

text \<open>
  The claim as stated fails: with counts \<open>[0, 0, 0]\<close>, desired capacity 0 and the
  stored weights \<open>[5, 3, 2]\<close>, the convergence rebalance writes the weights
  \<open>[5, 3, 2]\<close> again, not \<open>[1, 0, 0]\<close>.
\<close>

theorem zero_counts_keep_weights:
  "handle_endpoint_status_change
     \<lparr>endpoint_name = Some ''ep-server1'', endpoint_status = Some ''IN_SERVICE'',
      reported_count = Some 0\<rparr>
     (Some \<lparr>servers = Some [''server1'', ''server2'', ''server3''], weights = Some [5, 3, 2],
            current_instance_count = Some [0, 0, 0]\<rparr>)
     (Some (sample_state ''InProgress'' 0 0 1000)) ''dim-1'' 2000 =
   \<lparr>ev_statusCode = 200, ev_requests = [],
    written_config =
      Some \<lparr>servers = Some [''server1'', ''server2'', ''server3''], weights = Some [5, 3, 2],
            current_instance_count = Some [0, 0, 0]\<rparr>,
    written_state =
      Some ((sample_state ''InProgress'' 0 0 1000)
              (''actualCapacity'' \<mapsto> N 0, ''scalingStatus'' \<mapsto> S ''Successful'',
               ''id'' \<mapsto> S ''dim-1'', ''lastModified'' \<mapsto> N 2000))\<rparr>"
proof -
  let ?st = "sample_state ''InProgress'' 0 0 1000"
  have rn: "?st ''resourceName'' = Some (S ''ep'')"
    and desired: "?st ''desiredCapacity'' = Some (N (sum_list ([0, 0, 0][0 := 0])))"
    by (simp_all add: sample_state_fields)
  have i: "0 < length [0, 0, 0 :: int]" by simp
  have reb: "rebalance ([0, 0, 0][0 := 0]) [5, 3, 2] = Inr [5, 3, 2]"
    using sample_rebalance(2) by simp
  from convergence_run [where st = ?st and rn = "''ep''" and r = 0
        and dimensionId = "''dim-1''" and now_ms = 2000,
        OF rn sample_event(4) sample_event(5) sample_event(6) i desired reb]
  show ?thesis by simp
qed



end
